theory Spec2Isabelle
  imports Main "HOL-Library.Sublist" "HOL-Library.Multiset" "HOL-Library.List_Lexorder" "HOL-Library.Char_ord"
begin

section \<open>Python primitives used by the scripts\<close>

text \<open>
  Strings are \<^typ>\<open>string\<close>; the order on them (\<open>HOL-Library.List_Lexorder\<close> over
  \<open>HOL-Library.Char_ord\<close>) is the lexicographic order by character code, which is how
  Python compares \<open>str\<close> values.
\<close>

text \<open>\<^verbatim>\<open>s.startswith(p)\<close>\<close>

definition startswith :: "string \<Rightarrow> string \<Rightarrow> bool" where
  "startswith s p = (take (length p) s = p)"

text \<open>\<^verbatim>\<open>s.endswith(suf)\<close>\<close>

definition endswith :: "string \<Rightarrow> string \<Rightarrow> bool" where
  "endswith s suf = (length suf \<le> length s \<and> drop (length s - length suf) s = suf)"

text \<open>\<^verbatim>\<open>sub in s\<close> on strings: \<open>sub\<close> occurs in \<open>s\<close> as a contiguous block.\<close>

fun str_contains :: "string \<Rightarrow> string \<Rightarrow> bool" where
  "str_contains [] sub = (sub = [])"
| "str_contains (c # cs) sub = (startswith (c # cs) sub \<or> str_contains cs sub)"

text \<open>
  \<^verbatim>\<open>s.split(sep)\<close> for a one-character separator: the pieces between the occurrences
  of the separator, empty pieces included, so that a string with \<open>n\<close> separators gives
  \<open>n + 1\<close> pieces.
\<close>

fun py_split :: "char \<Rightarrow> string \<Rightarrow> string list" where
  "py_split sep [] = [[]]"
| "py_split sep (c # cs) =
     (if c = sep then [] # py_split sep cs
      else (case py_split sep cs of [] \<Rightarrow> [[c]] | l # ls \<Rightarrow> (c # l) # ls))"

text \<open>\<^verbatim>\<open>sep.join(pieces)\<close>, the inverse of \<open>py_split\<close>.\<close>

fun py_join :: "char \<Rightarrow> string list \<Rightarrow> string" where
  "py_join sep [] = []"
| "py_join sep [l] = l"
| "py_join sep (l # ls) = l @ sep # py_join sep ls"

text \<open>
  \<^verbatim>\<open>s.strip()\<close>: leading and trailing whitespace removed. The whitespace characters
  are the ASCII ones Python's \<open>str.isspace\<close> accepts.
\<close>

definition isspace :: "char \<Rightarrow> bool" where
  "isspace c = (c \<in> set [CHR 0x09, CHR 0x0A, CHR 0x0B, CHR 0x0C, CHR 0x0D,
                           CHR 0x1C, CHR 0x1D, CHR 0x1E, CHR 0x1F, CHR 0x20])"

definition strip :: "string \<Rightarrow> string" where
  "strip s = rev (dropWhile isspace (rev (dropWhile isspace s)))"

text \<open>
  \<^verbatim>\<open>os.path.basename(p)\<close> on POSIX: what follows the last \<open>/\<close> (all of \<open>p\<close> when it
  has none).
\<close>

definition basename :: "string \<Rightarrow> string" where
  "basename p = rev (takeWhile (\<lambda>c. c \<noteq> CHR ''/'') (rev p))"

text \<open>
  \<^verbatim>\<open>sorted(xs, key=k, reverse=True)\<close>. Python's sort is stable, and with
  \<open>reverse=True\<close> elements with equal keys still keep their original order: the list is
  reversed, sorted stably in ascending order and reversed again.
\<close>

definition py_sorted_reverse :: "('a \<Rightarrow> 'k::linorder) \<Rightarrow> 'a list \<Rightarrow> 'a list" where
  "py_sorted_reverse k xs = rev (sort_key k (rev xs))"

text \<open>
  The exceptions the scripts can meet, all subclasses of \<open>Exception\<close>. \<open>ClientError\<close> is
  botocore's exception for an error response of the service and carries the error code
  (\<open>404\<close> for a missing object, \<open>AccessDenied\<close>, \<open>SlowDown\<close>, ...); \<open>BotoCoreError\<close> stands for
  the client-side failures that are not a \<open>ClientError\<close> (no connection, no credentials);
  \<open>ServiceError\<close> for whatever the Pinecone, OpenAI and loader clients raise.
\<close>

datatype py_exception =
    ClientError string
  | BotoCoreError string
  | JSONDecodeError
  | ValueError string
  | KeyError string
  | IndexError
  | ServiceError string

fun is_ClientError :: "py_exception \<Rightarrow> bool" where
  "is_ClientError (ClientError code) = True"
| "is_ClientError e = False"

section \<open>The object store, the vector-index service and the trace of a run\<close>

text \<open>
  The ingestion ledger is a \<open>dict\<close> from source-file name to index name: an association
  list in insertion order. \<open>k in d\<close> is \<open>k \<in> set (map fst d)\<close>, \<open>d[k]\<close> is \<open>map_of d k\<close>,
  \<open>d[k] = v\<close> overwrites the entry of \<open>k\<close> in place or appends a new one.
\<close>

type_synonym ledger = "(string \<times> string) list"

definition dict_set :: "ledger \<Rightarrow> string \<Rightarrow> string \<Rightarrow> ledger" where
  "dict_set d k v = (if k \<in> set (map fst d) then map (\<lambda>(k', v'). if k' = k then (k', v) else (k', v')) d
                     else d @ [(k, v)])"

text \<open>
  What an object of the bucket holds, as far as the scripts read it: a JSON object of
  strings (the ledger, as \<open>json.dump\<close> wrote it) or anything else, which \<open>json.load\<close> does
  not turn into a ledger.
\<close>

datatype body = Ledger_json ledger | Opaque

record s3_object =
  Key :: string
  LastModified :: int
  Body :: body

definition bucket_name :: string where "bucket_name = ''datacrux-dev''"
definition log_key :: string where "log_key = ''copilot/ingestion_log.json''"
definition prefix_dir :: string where "prefix_dir = ''copilot/''"

text \<open>The messages a script shows (\<open>st.error\<close>, \<open>st.info\<close>, ...), by what they report.\<close>

datatype message =
    List_failed py_exception
  | Latest_json string
  | Already_ingested string
  | Ingesting string string
  | Temporary_file_deleted
  | Ingestion_completed
  | Ingestion_failed py_exception
  | No_inventory_files
  | Error_loading_latest_index py_exception
  | Failed_to_create_index int py_exception
  | Error_generating_embedding py_exception
  | Error_querying_index py_exception
  | Document_not_found string
  | Error_generating_report py_exception
  | No_relevant_documents
  | No_response_generated
  | Answer string "string list"

text \<open>
  Every call a script issues to a remote service, and every message it shows, is recorded
  in order, whether the call succeeds or raises.
\<close>

datatype event =
    S3_download_file string
  | S3_upload_file string
  | S3_list_objects_v2 string
  | S3_delete_object string
  | Loader_init string string string
  | Loader_load_and_index
  | Pc_list_indexes
  | Pc_create_index string
  | Pc_Index string
  | Index_query nat
  | Embeddings_create string
  | Chat_completions_create string string
  | Sleep int
  | St message

record world =
  bucket :: "s3_object list"
  indexes :: "string list"
  trace :: "event list"

definition emit :: "event \<Rightarrow> world \<Rightarrow> world" where
  "emit e w = w\<lparr>trace := trace w @ [e]\<rparr>"

text \<open>
  How the remote calls of one run of a script turn out. The object store and the loader
  are outside the scripts: a call either raises the exception given here or has its
  effect on the bucket. \<open>LangchainPineconeLoader\<close> (module \<open>ingestion_script\<close>) is a
  parameter: only whether its constructor and \<open>load_and_index\<close> raise is known to the
  scripts, and it reads the bucket without writing to it. \<open>now\<close> is the modification
  time the store gives an object written in this run.
\<close>

record faults =
  now :: int
  list_objects_fault :: "py_exception option"
  download_fault :: "string \<Rightarrow> py_exception option"
  upload_fault :: "py_exception option"
  delete_fault :: "py_exception option"
  loader_init_fault :: "py_exception option"
  load_and_index_fault :: "py_exception option"

definition lookup_object :: "string \<Rightarrow> s3_object list \<Rightarrow> s3_object option" where
  "lookup_object k objs = find (\<lambda>obj. Key obj = k) objs"

text \<open>\<^verbatim>\<open>s3.download_file(bucket_name, k, tmp)\<close>: a missing object is a \<open>ClientError\<close> 404.\<close>

definition s3_download_file :: "faults \<Rightarrow> string \<Rightarrow> world \<Rightarrow> (py_exception + body) \<times> world" where
  "s3_download_file f k w =
     (let w1 = emit (S3_download_file k) w in
      case download_fault f k of
        Some e \<Rightarrow> (Inl e, w1)
      | None \<Rightarrow>
          (case lookup_object k (bucket w) of
             None \<Rightarrow> (Inl (ClientError ''404''), w1)
           | Some obj \<Rightarrow> (Inr (Body obj), w1)))"

definition put_object :: "s3_object \<Rightarrow> s3_object list \<Rightarrow> s3_object list" where
  "put_object obj objs =
     (if Key obj \<in> set (map Key objs) then map (\<lambda>x. if Key x = Key obj then obj else x) objs
      else objs @ [obj])"

text \<open>\<^verbatim>\<open>s3.upload_file(tmp, bucket_name, k)\<close>: one PUT that creates or overwrites the object.\<close>

definition s3_upload_file :: "faults \<Rightarrow> string \<Rightarrow> body \<Rightarrow> world \<Rightarrow> py_exception option \<times> world" where
  "s3_upload_file f k b w =
     (let w1 = emit (S3_upload_file k) w in
      case upload_fault f of
        Some e \<Rightarrow> (Some e, w1)
      | None \<Rightarrow> (None, w1\<lparr>bucket := put_object \<lparr>Key = k, LastModified = now f, Body = b\<rparr> (bucket w1)\<rparr>))"

text \<open>\<^verbatim>\<open>s3.delete_object(Bucket=bucket_name, Key=k)\<close>\<close>

definition s3_delete_object :: "faults \<Rightarrow> string \<Rightarrow> world \<Rightarrow> py_exception option \<times> world" where
  "s3_delete_object f k w =
     (let w1 = emit (S3_delete_object k) w in
      case delete_fault f of
        Some e \<Rightarrow> (Some e, w1)
      | None \<Rightarrow> (None, w1\<lparr>bucket := filter (\<lambda>obj. Key obj \<noteq> k) (bucket w1)\<rparr>))"

text \<open>
  \<^verbatim>\<open>s3.list_objects_v2(Bucket=bucket_name, Prefix=p)\<close>: the objects whose key begins
  with \<open>p\<close>; the response has a \<open>Contents\<close> entry only when some object matches.
\<close>

definition listed :: "string \<Rightarrow> s3_object list \<Rightarrow> s3_object list" where
  "listed p objs = filter (\<lambda>obj. startswith (Key obj) p) objs"

definition s3_list_objects_v2 ::
  "faults \<Rightarrow> string \<Rightarrow> world \<Rightarrow> (py_exception + s3_object list option) \<times> world" where
  "s3_list_objects_v2 f p w =
     (let w1 = emit (S3_list_objects_v2 p) w in
      case list_objects_fault f of
        Some e \<Rightarrow> (Inl e, w1)
      | None \<Rightarrow>
          (let objs = listed p (bucket w) in
           (Inr (if objs = [] then None else Some objs), w1)))"

text \<open>\<^verbatim>\<open>json.load(f)\<close> of a downloaded ledger.\<close>

definition json_load :: "body \<Rightarrow> py_exception + ledger" where
  "json_load b = (case b of Ledger_json d \<Rightarrow> Inr d | Opaque \<Rightarrow> Inl JSONDecodeError)"

text \<open>
  \<^verbatim>\<open>LangchainPineconeLoader(bucket_name=b, directory_path=d, index_name=i)\<close> and
  \<^verbatim>\<open>loader.load_and_index()\<close>: the trace keeps what the loader was constructed on.
\<close>

definition loader_init ::
  "faults \<Rightarrow> string \<Rightarrow> string \<Rightarrow> string \<Rightarrow> world \<Rightarrow> py_exception option \<times> world" where
  "loader_init f b directory_path index_name w =
     (loader_init_fault f, emit (Loader_init b directory_path index_name) w)"

definition loader_load_and_index :: "faults \<Rightarrow> world \<Rightarrow> py_exception option \<times> world" where
  "loader_load_and_index f w = (load_and_index_fault f, emit Loader_load_and_index w)"

section \<open>The ingestion ledger (\<open>app.py\<close>, \<open>inventory.py\<close>)\<close>

text \<open>
  \<^verbatim>\<open>
  def load_ingestion_log():
      try:
          with tempfile.NamedTemporaryFile(delete=False) as tmp:
              s3.download_file(bucket_name, log_key, tmp.name)
              with open(tmp.name, "r") as f:
                  return json.load(f)
      except s3.exceptions.ClientError:
          return {}
  \<close>
\<close>

definition load_ingestion_log :: "faults \<Rightarrow> world \<Rightarrow> (py_exception + ledger) \<times> world" where
  "load_ingestion_log f w =
     (case s3_download_file f log_key w of
        (Inl e, w1) \<Rightarrow> (if is_ClientError e then (Inr [], w1) else (Inl e, w1))
      | (Inr b, w1) \<Rightarrow> (json_load b, w1))"

text \<open>
  \<^verbatim>\<open>
  def save_ingestion_log(log_data):
      with tempfile.NamedTemporaryFile(delete=False, mode="w", suffix=".json") as tmp:
          json.dump(log_data, tmp, indent=2)
          tmp.flush()
          s3.upload_file(tmp.name, bucket_name, log_key)
  \<close>
\<close>

definition save_ingestion_log :: "faults \<Rightarrow> ledger \<Rightarrow> world \<Rightarrow> py_exception option \<times> world" where
  "save_ingestion_log f log_data w = s3_upload_file f log_key (Ledger_json log_data) w"

section \<open>The ingestion orchestrator (\<open>app.py\<close> page 1, \<open>inventory.py\<close> step 2)\<close>

text \<open>
  The two scripts run the same statements and differ in the messages they show:
  \<open>inventory.py\<close> announces the ingestion before it constructs the loader and reports
  the deletion of the snapshot.
\<close>

datatype script = App_py | Inventory_py

text \<open>What the operator entered in the form of this run.\<close>

record ingestion_inputs =
  index_name_input :: string
  start_ingestion_clicked :: bool

text \<open>\<^verbatim>\<open>objects.get("Contents", [])\<close>\<close>

definition get_contents :: "s3_object list option \<Rightarrow> s3_object list" where
  "get_contents objects = (case objects of None \<Rightarrow> [] | Some objs \<Rightarrow> objs)"

text \<open>
  \<^verbatim>\<open>
  json_files = sorted(
      [obj for obj in objects.get("Contents", [])
       if obj["Key"].endswith(".json") and "ingestion_log" not in obj["Key"]],
      key=lambda x: x["LastModified"],
      reverse=True
  )
  \<close>
\<close>

definition json_files :: "s3_object list \<Rightarrow> s3_object list" where
  "json_files contents =
     py_sorted_reverse LastModified
       (filter (\<lambda>obj. endswith (Key obj) ''.json'' \<and> \<not> str_contains (Key obj) ''ingestion_log'')
          contents)"

text \<open>\<^verbatim>\<open>json_files[0]\<close> under \<^verbatim>\<open>if json_files:\<close>\<close>

definition latest_json_file :: "s3_object list \<Rightarrow> s3_object option" where
  "latest_json_file contents = (case json_files contents of [] \<Rightarrow> None | obj # _ \<Rightarrow> Some obj)"

text \<open>
  The body of the \<open>try\<close> of the "Start Ingestion" handler: the exception that ended it, if
  any, the in-memory ledger and the world it leaves.
  \<^verbatim>\<open>
  latest_local = os.path.join(tempfile.gettempdir(), latest_file_name)
  s3.download_file(bucket_name, latest_file_key, latest_local)
  loader = LangchainPineconeLoader(bucket_name=bucket_name, directory_path=prefix,
                                   index_name=index_name)
  loader.load_and_index()
  ingestion_log[latest_file_name] = index_name
  save_ingestion_log(ingestion_log)
  s3.delete_object(Bucket=bucket_name, Key=latest_file_key)
  st.success("Ingestion completed!")
  \<close>
\<close>

definition ingest_try ::
  "script \<Rightarrow> faults \<Rightarrow> string \<Rightarrow> string \<Rightarrow> string \<Rightarrow> ledger \<Rightarrow> world
     \<Rightarrow> py_exception option \<times> ledger \<times> world" where
  "ingest_try v f latest_file_key latest_file_name index_name ingestion_log w =
     (case s3_download_file f latest_file_key w of
        (Inl e, w1) \<Rightarrow> (Some e, ingestion_log, w1)
      | (Inr _, w1) \<Rightarrow>
          (case loader_init f bucket_name prefix_dir index_name
                  (if v = Inventory_py then emit (St (Ingesting latest_file_name index_name)) w1
                   else w1) of
             (Some e, w2) \<Rightarrow> (Some e, ingestion_log, w2)
           | (None, w2) \<Rightarrow>
               (case loader_load_and_index f w2 of
                  (Some e, w3) \<Rightarrow> (Some e, ingestion_log, w3)
                | (None, w3) \<Rightarrow>
                    (let ingestion_log' = dict_set ingestion_log latest_file_name index_name in
                     case save_ingestion_log f ingestion_log' w3 of
                       (Some e, w4) \<Rightarrow> (Some e, ingestion_log', w4)
                     | (None, w4) \<Rightarrow>
                         (case s3_delete_object f latest_file_key w4 of
                            (Some e, w5) \<Rightarrow> (Some e, ingestion_log', w5)
                          | (None, w5) \<Rightarrow>
                              (None, ingestion_log',
                               emit (St Ingestion_completed)
                                 (if v = Inventory_py then emit (St Temporary_file_deleted) w5
                                  else w5)))))))"

text \<open>\<^verbatim>\<open>try: ... except Exception as e: st.error(f"Ingestion failed: {e}")\<close>\<close>

definition start_ingestion ::
  "script \<Rightarrow> faults \<Rightarrow> string \<Rightarrow> string \<Rightarrow> string \<Rightarrow> ledger \<Rightarrow> world \<Rightarrow> ledger \<times> world" where
  "start_ingestion v f latest_file_key latest_file_name index_name ingestion_log w =
     (case ingest_try v f latest_file_key latest_file_name index_name ingestion_log w of
        (Some e, ingestion_log', w') \<Rightarrow> (ingestion_log', emit (St (Ingestion_failed e)) w')
      | (None, ingestion_log', w') \<Rightarrow> (ingestion_log', w'))"

text \<open>
  The orchestrator, from the listing to the end of the script, on the ledger loaded at
  the top of the page.
  \<^verbatim>\<open>
  try:
      objects = s3.list_objects_v2(Bucket=bucket_name, Prefix=prefix)
      json_files = sorted(...)
  except Exception as e:
      st.error(f"Failed to list S3 objects: {e}")
      json_files = []
  if json_files:
      latest_file_key = json_files[0]["Key"]
      latest_file_name = os.path.basename(latest_file_key)
      st.write(f"Latest JSON: `{latest_file_name}`")
      if latest_file_name in ingestion_log:
          st.info(f"Already ingested into: `{ingestion_log[latest_file_name]}`")
      else:
          index_name = st.text_input("New Pinecone Index Name")
          if index_name and st.button("Start Ingestion"):
              ...
  else:
      st.warning(...)
  \<close>
\<close>

definition list_json_files :: "faults \<Rightarrow> world \<Rightarrow> s3_object list \<times> world" where
  "list_json_files f w =
     (case s3_list_objects_v2 f prefix_dir w of
        (Inl e, w1) \<Rightarrow> ([], emit (St (List_failed e)) w1)
      | (Inr objects, w1) \<Rightarrow> (json_files (get_contents objects), w1))"

definition ingestion_orchestrator ::
  "script \<Rightarrow> faults \<Rightarrow> ingestion_inputs \<Rightarrow> ledger \<Rightarrow> world \<Rightarrow> ledger \<times> world" where
  "ingestion_orchestrator v f inp ingestion_log w =
     (case list_json_files f w of
        ([], w1) \<Rightarrow> (ingestion_log, emit (St No_inventory_files) w1)
      | (obj # _, w1) \<Rightarrow>
          (let latest_file_key = Key obj;
               latest_file_name = basename latest_file_key;
               w2 = emit (St (Latest_json latest_file_name)) w1
           in case map_of ingestion_log latest_file_name of
                Some recorded \<Rightarrow> (ingestion_log, emit (St (Already_ingested recorded)) w2)
              | None \<Rightarrow>
                  (if index_name_input inp \<noteq> [] \<and> start_ingestion_clicked inp
                   then start_ingestion v f latest_file_key latest_file_name
                          (index_name_input inp) ingestion_log w2
                   else (ingestion_log, w2))))"

text \<open>
  One run of the page: the ledger is loaded first (\<^verbatim>\<open>ingestion_log = load_ingestion_log()\<close>),
  and an exception of that call ends the run. The inventory-fetch form between the two
  is a separate button and is not part of a run that starts an ingestion.
\<close>

definition ingestion_page ::
  "script \<Rightarrow> faults \<Rightarrow> ingestion_inputs \<Rightarrow> world \<Rightarrow> (py_exception + ledger) \<times> world" where
  "ingestion_page v f inp w =
     (case load_ingestion_log f w of
        (Inl e, w1) \<Rightarrow> (Inl e, w1)
      | (Inr ingestion_log, w1) \<Rightarrow>
          (case ingestion_orchestrator v f inp ingestion_log w1 of
             (ingestion_log', w2) \<Rightarrow> (Inr ingestion_log', w2)))"

section \<open>Selecting the index to query (\<open>GCP_GPT_Assistant.py\<close>, \<open>app.py\<close>)\<close>

text \<open>
  \<^verbatim>\<open>
  def get_latest_index_from_s3_log():
      try:
          tmp_log_file = tempfile.NamedTemporaryFile(delete=False, suffix=".json").name
          s3.download_file(bucket_name, log_key, tmp_log_file)
          with open(tmp_log_file, "r") as f:
              ingestion_log = json.load(f)
          if not ingestion_log:
              raise ValueError("Ingestion log is empty.")
          latest_file = sorted(ingestion_log.keys(), reverse=True)[0]
          return ingestion_log[latest_file]
      except Exception as e:
          st.error(f"Error loading latest index from S3: {e}")
          return None
  \<close>
  The body of the \<open>try\<close> first, then the handler.
\<close>

definition latest_index_try :: "faults \<Rightarrow> world \<Rightarrow> (py_exception + string) \<times> world" where
  "latest_index_try f w =
     (case s3_download_file f log_key w of
        (Inl e, w1) \<Rightarrow> (Inl e, w1)
      | (Inr b, w1) \<Rightarrow>
          (case json_load b of
             Inl e \<Rightarrow> (Inl e, w1)
           | Inr ingestion_log \<Rightarrow>
               (if ingestion_log = [] then (Inl (ValueError ''Ingestion log is empty.''), w1)
                else
                  (case py_sorted_reverse (\<lambda>k. k) (map fst ingestion_log) of
                     [] \<Rightarrow> (Inl IndexError, w1)
                   | latest_file # _ \<Rightarrow>
                       (case map_of ingestion_log latest_file of
                          None \<Rightarrow> (Inl (KeyError latest_file), w1)
                        | Some index_name \<Rightarrow> (Inr index_name, w1))))))"

definition get_latest_index_from_s3_log :: "faults \<Rightarrow> world \<Rightarrow> string option \<times> world" where
  "get_latest_index_from_s3_log f w =
     (case latest_index_try f w of
        (Inl e, w1) \<Rightarrow> (None, emit (St (Error_loading_latest_index e)) w1)
      | (Inr index_name, w1) \<Rightarrow> (Some index_name, w1))"

section \<open>Index bootstrap\<close>

text \<open>
  How the calls to the vector-index, embedding and completion services turn out in one
  run. The listing and creation calls are indexed by the attempt that issues them, so
  that a creation may fail on some attempts and succeed on a later one. \<open>'v\<close> is the
  type of embedding vectors.
\<close>

record scored_match =
  match_id :: string
  metadata :: "(string \<times> string) list option"

record query_result =
  matches :: "scored_match list option"

record 'v services =
  list_indexes_fault :: "nat \<Rightarrow> py_exception option"
  create_index_fault :: "nat \<Rightarrow> py_exception option"
  index_handle_fault :: "py_exception option"
  embedding :: "string \<Rightarrow> py_exception + 'v"
  index_query :: "'v \<Rightarrow> nat \<Rightarrow> py_exception + query_result"
  completion :: "string \<Rightarrow> string \<Rightarrow> py_exception + string"

text \<open>\<^verbatim>\<open>pc.list_indexes().names()\<close>\<close>

definition pc_list_indexes ::
  "'v services \<Rightarrow> nat \<Rightarrow> world \<Rightarrow> (py_exception + string list) \<times> world" where
  "pc_list_indexes sv attempt w =
     (let w1 = emit Pc_list_indexes w in
      case list_indexes_fault sv attempt of
        Some e \<Rightarrow> (Inl e, w1)
      | None \<Rightarrow> (Inr (indexes w), w1))"

text \<open>
  \<^verbatim>\<open>pc.create_index(name=index_name, dimension=dimension, metric=metric, spec=spec)\<close>;
  dimension (1536), metric and spec are constants of the scripts.
\<close>

definition pc_create_index ::
  "'v services \<Rightarrow> nat \<Rightarrow> string \<Rightarrow> world \<Rightarrow> py_exception option \<times> world" where
  "pc_create_index sv attempt index_name w =
     (let w1 = emit (Pc_create_index index_name) w in
      case create_index_fault sv attempt of
        Some e \<Rightarrow> (Some e, w1)
      | None \<Rightarrow> (None, w1\<lparr>indexes := indexes w1 @ [index_name]\<rparr>))"

text \<open>\<^verbatim>\<open>pc.Index(index_name)\<close>\<close>

definition pc_Index :: "'v services \<Rightarrow> string \<Rightarrow> world \<Rightarrow> py_exception option \<times> world" where
  "pc_Index sv index_name w = (index_handle_fault sv, emit (Pc_Index index_name) w)"

text \<open>
  \<^verbatim>\<open>
  if index_name not in pc.list_indexes().names():
      pc.create_index(...)
  \<close>
  The body of one attempt of \<open>create_index_with_retry\<close>, and all of the bootstrap of
  \<open>app.py\<close>: the exception it ends with, if any.
\<close>

definition create_if_absent ::
  "'v services \<Rightarrow> nat \<Rightarrow> string \<Rightarrow> world \<Rightarrow> py_exception option \<times> world" where
  "create_if_absent sv attempt index_name w =
     (case pc_list_indexes sv attempt w of
        (Inl e, w1) \<Rightarrow> (Some e, w1)
      | (Inr names, w1) \<Rightarrow>
          (if index_name \<notin> set names then pc_create_index sv attempt index_name w1
           else (None, w1)))"

text \<open>
  \<^verbatim>\<open>
  def create_index_with_retry(index_name, dimension, metric, spec, retries=3, delay=5):
      for attempt in range(retries):
          try:
              if index_name not in pc.list_indexes().names():
                  pc.create_index(...)
              return True
          except Exception as e:
              if attempt < retries - 1:
                  time.sleep(delay)
              else:
                  st.error(f"Failed to create index after {retries} attempts: {e}")
                  return False
  \<close>
  The loop from attempt number \<open>attempt\<close> on. The result is \<open>None\<close> when the loop ends
  without a \<open>return\<close> (Python then returns \<open>None\<close>).
\<close>

function create_index_with_retry_from ::
  "'v services \<Rightarrow> string \<Rightarrow> int \<Rightarrow> int \<Rightarrow> nat \<Rightarrow> world \<Rightarrow> bool option \<times> world" where
  "create_index_with_retry_from sv index_name retries delay attempt w =
     (if int attempt < retries then
        (case create_if_absent sv attempt index_name w of
           (None, w1) \<Rightarrow> (Some True, w1)
         | (Some e, w1) \<Rightarrow>
             (if int attempt < retries - 1
              then create_index_with_retry_from sv index_name retries delay (Suc attempt)
                     (emit (Sleep delay) w1)
              else (Some False, emit (St (Failed_to_create_index retries e)) w1)))
      else (None, w))"
  by pat_completeness auto
termination
  by (relation "measure (\<lambda>(sv, index_name, retries, delay, attempt, w). nat (retries - int attempt))")
     auto

definition create_index_with_retry ::
  "'v services \<Rightarrow> string \<Rightarrow> int \<Rightarrow> int \<Rightarrow> world \<Rightarrow> bool option \<times> world" where
  "create_index_with_retry sv index_name retries delay w =
     create_index_with_retry_from sv index_name retries delay 0 w"

section \<open>The query engine of \<open>GCP_GPT_Assistant.py\<close>\<close>

text \<open>
  \<^verbatim>\<open>
  def generate_embedding(self, text):
      try:
          response = self.client.embeddings.create(input=text, model=self.embeddings_model)
          return response.data[0].embedding
      except Exception as e:
          st.error(f"Error generating embedding: {e}")
          return None
  \<close>
\<close>

definition generate_embedding :: "'v services \<Rightarrow> string \<Rightarrow> world \<Rightarrow> 'v option \<times> world" where
  "generate_embedding sv txt w =
     (let w1 = emit (Embeddings_create txt) w in
      case embedding sv txt of
        Inl e \<Rightarrow> (None, emit (St (Error_generating_embedding e)) w1)
      | Inr v \<Rightarrow> (Some v, w1))"

text \<open>
  \<^verbatim>\<open>
  def search_index(self, query, top_k=6):
      embedding = self.generate_embedding(query)
      if embedding is None:
          return None
      try:
          return self.index.query(vector=embedding, top_k=top_k,
                                  include_values=False, include_metadata=True)
      except Exception as e:
          st.error(f"Error querying index: {e}")
          return None
  \<close>
\<close>

definition search_index ::
  "'v services \<Rightarrow> string \<Rightarrow> nat \<Rightarrow> world \<Rightarrow> query_result option \<times> world" where
  "search_index sv question top_k w =
     (case generate_embedding sv question w of
        (None, w1) \<Rightarrow> (None, w1)
      | (Some v, w1) \<Rightarrow>
          (let w2 = emit (Index_query top_k) w1 in
           case index_query sv v top_k of
             Inl e \<Rightarrow> (None, emit (St (Error_querying_index e)) w2)
           | Inr r \<Rightarrow> (Some r, w2)))"

text \<open>\<^verbatim>\<open>result['metadata']['content']\<close>: a missing key is a \<open>KeyError\<close>.\<close>

definition content_of :: "scored_match \<Rightarrow> py_exception + string" where
  "content_of result =
     (case metadata result of
        None \<Rightarrow> Inl (KeyError ''metadata'')
      | Some md \<Rightarrow>
          (case map_of md ''content'' of
             None \<Rightarrow> Inl (KeyError ''content'')
           | Some c \<Rightarrow> Inr c))"

text \<open>
  \<^verbatim>\<open>
  def retrieve_documents(self, query_result, max_docs=3):
      documents = []
      if not query_result or 'matches' not in query_result:
          return documents
      for result in query_result['matches'][:max_docs]:
          try:
              documents.append(result['metadata']['content'])
          except KeyError:
              st.error(f"Document ID '{result['id']}' not found in metadata.")
      return documents
  \<close>
  The loop over the slice, with the list \<open>documents\<close> built so far.
\<close>

fun retrieve_loop :: "scored_match list \<Rightarrow> string list \<Rightarrow> world \<Rightarrow> string list \<times> world" where
  "retrieve_loop [] documents w = (documents, w)"
| "retrieve_loop (result # rest) documents w =
     (case content_of result of
        Inr c \<Rightarrow> retrieve_loop rest (documents @ [c]) w
      | Inl e \<Rightarrow> retrieve_loop rest documents (emit (St (Document_not_found (match_id result))) w))"

definition retrieve_documents :: "query_result \<Rightarrow> nat \<Rightarrow> world \<Rightarrow> string list \<times> world" where
  "retrieve_documents query_result max_docs w =
     (case matches query_result of
        None \<Rightarrow> ([], w)
      | Some ms \<Rightarrow> retrieve_loop (take max_docs ms) [] w)"

text \<open>
  \<^verbatim>\<open>
  def extract_references(self, report):
      return [line for line in report.split("\n") if line.startswith("Reference:")]
  \<close>
\<close>

definition extract_references :: "string \<Rightarrow> string list" where
  "extract_references report =
     filter (\<lambda>line. startswith line ''Reference:'') (py_split CHR ''\<newline>'' report)"

text \<open>
  The prompt of \<open>generate_report\<close>:
  \<^verbatim>\<open>
  prompt = f"Question: {query}\n\nRelevant Documents:\n"
  for doc in documents:
      prompt += f"- {doc}\n"
  prompt += "\nProvide a detailed answer to the question above based on the relevant documents. Include references in the format 'Reference: [source information]'."
  \<close>
\<close>

definition build_prompt :: "string \<Rightarrow> string list \<Rightarrow> string" where
  "build_prompt question documents =
     ''Question: '' @ question @ ''\<newline>\<newline>Relevant Documents:\<newline>''
     @ concat (map (\<lambda>doc. ''- '' @ doc @ ''\<newline>'') documents)
     @ ''\<newline>Provide a detailed answer to the question above based on the relevant documents. Include references in the format 'Reference: [source information]'.''"

text \<open>
  The system message of \<open>generate_report\<close> is a fixed literal of some forty lines; only
  its heading is kept here, as the scripts never inspect it.
\<close>

definition role_description :: string where
  "role_description = ''= Your Role =\<newline>''"

text \<open>
  \<^verbatim>\<open>
  def generate_report(self, query, documents):
      ...
      messages = [{"role": "system", "content": role_description},
                  {"role": "user", "content": prompt}]
      try:
          response = self.client.chat.completions.create(model=self.llm_model, messages=messages)
          report = response.choices[0].message.content.strip()
          references = self.extract_references(report)
          return report, references
      except Exception as e:
          st.error(f"An error occurred while generating the report: {e}")
          return None, []
  \<close>
\<close>

definition generate_report ::
  "'v services \<Rightarrow> string \<Rightarrow> string list \<Rightarrow> world \<Rightarrow> (string option \<times> string list) \<times> world" where
  "generate_report sv question documents w =
     (let prompt = build_prompt question documents;
          w1 = emit (Chat_completions_create role_description prompt) w
      in case completion sv role_description prompt of
           Inl e \<Rightarrow> ((None, []), emit (St (Error_generating_report e)) w1)
         | Inr content \<Rightarrow>
             (let report = strip content in ((Some report, extract_references report), w1)))"

text \<open>
  \<^verbatim>\<open>
  def query(self, query):
      query_result = self.search_index(query)
      if query_result is None:
          return None, []
      documents = self.retrieve_documents(query_result)
      if not documents:
          st.warning("No relevant documents found.")
          return None, []
      return self.generate_report(query, documents)
  \<close>
\<close>

definition query ::
  "'v services \<Rightarrow> string \<Rightarrow> world \<Rightarrow> (string option \<times> string list) \<times> world" where
  "query sv question w =
     (case search_index sv question 6 w of
        (None, w1) \<Rightarrow> ((None, []), w1)
      | (Some query_result, w1) \<Rightarrow>
          (case retrieve_documents query_result 3 w1 of
             (documents, w2) \<Rightarrow>
               (if documents = [] then ((None, []), emit (St No_relevant_documents) w2)
                else generate_report sv question documents w2)))"

section \<open>The query engine of \<open>app.py\<close>\<close>

text \<open>
  The class of \<open>app.py\<close> has no \<open>try\<close>: an exception of a remote call, or of a lookup,
  leaves \<open>query\<close>.
  \<^verbatim>\<open>
  def generate_embedding(self, text):
      response = openai_client.embeddings.create(input=text, model=self.embeddings_model)
      return response.data[0].embedding

  def search_index(self, query, top_k=6):
      vector = self.generate_embedding(query)
      return self.index.query(vector=vector, top_k=top_k, include_metadata=True)
  \<close>
\<close>

definition search_index_app ::
  "'v services \<Rightarrow> string \<Rightarrow> nat \<Rightarrow> world \<Rightarrow> (py_exception + query_result) \<times> world" where
  "search_index_app sv question top_k w =
     (let w1 = emit (Embeddings_create question) w in
      case embedding sv question of
        Inl e \<Rightarrow> (Inl e, w1)
      | Inr v \<Rightarrow> (index_query sv v top_k, emit (Index_query top_k) w1))"

text \<open>
  \<^verbatim>\<open>
  def retrieve_documents(self, results, max_docs=3):
      return [match['metadata']['content'] for match in results.get('matches', [])[:max_docs]]
  \<close>
\<close>

fun contents_of_all :: "scored_match list \<Rightarrow> py_exception + string list" where
  "contents_of_all [] = Inr []"
| "contents_of_all (m # ms) =
     (case content_of m of
        Inl e \<Rightarrow> Inl e
      | Inr c \<Rightarrow> (case contents_of_all ms of Inl e \<Rightarrow> Inl e | Inr cs \<Rightarrow> Inr (c # cs)))"

definition retrieve_documents_app :: "query_result \<Rightarrow> nat \<Rightarrow> py_exception + string list" where
  "retrieve_documents_app results max_docs =
     contents_of_all (take max_docs (case matches results of None \<Rightarrow> [] | Some ms \<Rightarrow> ms))"

text \<open>
  \<^verbatim>\<open>
  def generate_report(self, query, docs):
      prompt = f"Question: {query}\n\nRelevant Documents:\n" + "\n".join(f"- {d}" for d in docs)
      prompt += "\nProvide a detailed answer with references."
      role = "= Your Role =\nYou are a GCP JSON assistant..."
      messages = [{"role": "system", "content": role}, {"role": "user", "content": prompt}]
      response = openai_client.chat.completions.create(model=self.llm_model, messages=messages)
      return response.choices[0].message.content.strip()
  \<close>
\<close>

definition generate_report_app ::
  "'v services \<Rightarrow> string \<Rightarrow> string list \<Rightarrow> world \<Rightarrow> (py_exception + string) \<times> world" where
  "generate_report_app sv question docs w =
     (let prompt = ''Question: '' @ question @ ''\<newline>\<newline>Relevant Documents:\<newline>''
                   @ py_join CHR ''\<newline>'' (map (\<lambda>d. ''- '' @ d) docs)
                   @ ''\<newline>Provide a detailed answer with references.'';
          role = ''= Your Role =\<newline>You are a GCP JSON assistant...'';
          w1 = emit (Chat_completions_create role prompt) w
      in case completion sv role prompt of
           Inl e \<Rightarrow> (Inl e, w1)
         | Inr content \<Rightarrow> (Inr (strip content), w1))"

text \<open>
  \<^verbatim>\<open>
  def query(self, question):
      results = self.search_index(question)
      docs = self.retrieve_documents(results)
      return self.generate_report(question, docs) if docs else "No relevant data found."
  \<close>
\<close>

definition query_app ::
  "'v services \<Rightarrow> string \<Rightarrow> world \<Rightarrow> (py_exception + string) \<times> world" where
  "query_app sv question w =
     (case search_index_app sv question 6 w of
        (Inl e, w1) \<Rightarrow> (Inl e, w1)
      | (Inr results, w1) \<Rightarrow>
          (case retrieve_documents_app results 3 of
             Inl e \<Rightarrow> (Inl e, w1)
           | Inr docs \<Rightarrow>
               (if docs \<noteq> [] then generate_report_app sv question docs w1
                else (Inr ''No relevant data found.'', w1))))"

section \<open>The two question-answering scripts\<close>

record qna_inputs =
  user_question :: string
  submitted :: bool

text \<open>
  How a run of a script ends: at its last statement, at \<open>st.stop()\<close>, or with an
  exception nothing caught.
\<close>

datatype outcome = Finished | Stopped | Raised py_exception

text \<open>
  \<open>GCP_GPT_Assistant.py\<close>, top level (the session history and the rendering of the
  answer are left out):
  \<^verbatim>\<open>
  index_name = get_latest_index_from_s3_log()
  if not index_name:
      st.stop()
  ...
  create_index_with_retry(index_name, dimension, metric, spec)
  ...
  assistant = PenTestVAPTAssistant(index_name=index_name)    # self.index = pc.Index(index_name)
  if submit_button and user_question.strip():
      report, references = assistant.query(user_question)
      if report:
          ...
      else:
          st.write("No response generated.")
  \<close>
\<close>

definition gcp_gpt_assistant_script ::
  "faults \<Rightarrow> 'v services \<Rightarrow> qna_inputs \<Rightarrow> world \<Rightarrow> outcome \<times> world" where
  "gcp_gpt_assistant_script f sv inp w =
     (case get_latest_index_from_s3_log f w of
        (None, w1) \<Rightarrow> (Stopped, w1)
      | (Some index_name, w1) \<Rightarrow>
          (if index_name = [] then (Stopped, w1)
           else
             (case create_index_with_retry sv index_name 3 5 w1 of
                (created, w2) \<Rightarrow>
                  (case pc_Index sv index_name w2 of
                     (Some e, w3) \<Rightarrow> (Raised e, w3)
                   | (None, w3) \<Rightarrow>
                       (if submitted inp \<and> strip (user_question inp) \<noteq> [] then
                          (case query sv (user_question inp) w3 of
                             ((Some report, references), w4) \<Rightarrow>
                               (if report \<noteq> [] then (Finished, emit (St (Answer report references)) w4)
                                else (Finished, emit (St No_response_generated) w4))
                           | ((None, references), w4) \<Rightarrow>
                               (Finished, emit (St No_response_generated) w4))
                        else (Finished, w3))))))"

text \<open>
  \<open>app.py\<close>, page 2:
  \<^verbatim>\<open>
  index_name = get_latest_index_from_s3_log()
  if not index_name:
      st.stop()
  ...
  if index_name not in pc.list_indexes().names():
      pc.create_index(index_name, dimension=dimension, metric=metric, spec=spec)
  ...
  if submitted and user_question:
      assistant = PenTestVAPTAssistant(index_name)            # self.index = pc.Index(index_name)
      answer = assistant.query(user_question)
      st.markdown(answer)
  \<close>
\<close>

definition app_qna_page ::
  "faults \<Rightarrow> 'v services \<Rightarrow> qna_inputs \<Rightarrow> world \<Rightarrow> outcome \<times> world" where
  "app_qna_page f sv inp w =
     (case get_latest_index_from_s3_log f w of
        (None, w1) \<Rightarrow> (Stopped, w1)
      | (Some index_name, w1) \<Rightarrow>
          (if index_name = [] then (Stopped, w1)
           else
             (case create_if_absent sv 0 index_name w1 of
                (Some e, w2) \<Rightarrow> (Raised e, w2)
              | (None, w2) \<Rightarrow>
                  (if submitted inp \<and> user_question inp \<noteq> [] then
                     (case pc_Index sv index_name w2 of
                        (Some e, w3) \<Rightarrow> (Raised e, w3)
                      | (None, w3) \<Rightarrow>
                          (case query_app sv (user_question inp) w3 of
                             (Inl e, w4) \<Rightarrow> (Raised e, w4)
                           | (Inr answer, w4) \<Rightarrow> (Finished, emit (St (Answer answer [])) w4)))
                   else (Finished, w2)))))"

section \<open>Notions the properties are stated with\<close>

text \<open>
  A snapshot candidate, in the words of the filter of \<open>json_files\<close>: the key ends in
  \<open>.json\<close> and \<open>ingestion_log\<close> does not occur in it.
\<close>

definition snapshot_candidate :: "s3_object \<Rightarrow> bool" where
  "snapshot_candidate obj = (suffix ''.json'' (Key obj) \<and> \<not> sublist ''ingestion_log'' (Key obj))"

text \<open>The events a run that leads from world \<open>w\<close> to world \<open>w'\<close> added to the trace.\<close>

definition issued :: "world \<Rightarrow> world \<Rightarrow> event list" where
  "issued w w' = drop (length (trace w)) (trace w')"




text \<open>Two worlds hold the same store when they differ at most in the trace.\<close>

definition same_store :: "world \<Rightarrow> world \<Rightarrow> bool" where
  "same_store w w' = (bucket w = bucket w' \<and> indexes w = indexes w')"

text \<open>The calls to the completion service among some events.\<close>

fun is_completion_call :: "event \<Rightarrow> bool" where
  "is_completion_call (Chat_completions_create role prompt) = True"
| "is_completion_call e = False"

definition completion_calls :: "event list \<Rightarrow> nat" where
  "completion_calls es = length (filter is_completion_call es)"

text \<open>The calls to the vector-index, embedding and completion services among some events.\<close>

fun is_service_call :: "event \<Rightarrow> bool" where
  "is_service_call Pc_list_indexes = True"
| "is_service_call (Pc_create_index n) = True"
| "is_service_call (Pc_Index n) = True"
| "is_service_call (Index_query k) = True"
| "is_service_call (Embeddings_create t) = True"
| "is_service_call (Chat_completions_create role prompt) = True"
| "is_service_call e = False"

text \<open>The index creations among some events.\<close>

fun is_create_call :: "event \<Rightarrow> bool" where
  "is_create_call (Pc_create_index n) = True"
| "is_create_call e = False"

text \<open>The \<open>content\<close> field of a match, if it has one.\<close>

definition content_option :: "scored_match \<Rightarrow> string option" where
  "content_option m = (case content_of m of Inl e \<Rightarrow> None | Inr c \<Rightarrow> Some c)"

section \<open>Concrete stores and runs\<close>

definition older_snapshot :: s3_object where
  "older_snapshot =
     \<lparr>Key = ''copilot/gcp_inventory_20240101-000000.json'', LastModified = 1, Body = Opaque\<rparr>"

definition newer_snapshot :: s3_object where
  "newer_snapshot =
     \<lparr>Key = ''copilot/gcp_inventory_20240202-000000.json'', LastModified = 3, Body = Opaque\<rparr>"

definition ledger_object :: "int \<Rightarrow> ledger \<Rightarrow> s3_object" where
  "ledger_object t d = \<lparr>Key = ''copilot/ingestion_log.json'', LastModified = t, Body = Ledger_json d\<rparr>"

text \<open>
  A listing in which the ledger is the object modified last (\<open>save_ingestion_log\<close>
  rewrites it at the end of every ingestion), and one with two snapshots.
\<close>

definition newer_ledger_listing :: "s3_object list" where
  "newer_ledger_listing = [older_snapshot, ledger_object 2 []]"

definition two_snapshot_listing :: "s3_object list" where
  "two_snapshot_listing = [older_snapshot, ledger_object 2 [], newer_snapshot]"

text \<open>
  Runs in which no call to the store or the loader fails; in which \<open>load_and_index\<close>
  raises; in which every download is refused with an error response; and in which no
  download reaches the service.
\<close>

definition no_faults :: faults where
  "no_faults =
     \<lparr>now = 10, list_objects_fault = None, download_fault = (\<lambda>k. None), upload_fault = None,
      delete_fault = None, loader_init_fault = None, load_and_index_fault = None\<rparr>"

definition failing_loader :: faults where
  "failing_loader = no_faults\<lparr>load_and_index_fault := Some (ServiceError ''upsert failed'')\<rparr>"

definition access_denied :: faults where
  "access_denied = no_faults\<lparr>download_fault := (\<lambda>k. Some (ClientError ''AccessDenied''))\<rparr>"

definition no_connection :: faults where
  "no_connection = no_faults\<lparr>download_fault := (\<lambda>k. Some (BotoCoreError ''EndpointConnectionError''))\<rparr>"

text \<open>
  A store with one snapshot and an empty ledger; one with a ledger that records the
  snapshot, with its index in the service's listing and without; and the operator
  starting an ingestion.
\<close>

definition store_one_snapshot :: world where
  "store_one_snapshot = \<lparr>bucket = [older_snapshot, ledger_object 2 []], indexes = [], trace = []\<rparr>"

definition store_ingested :: world where
  "store_ingested =
     \<lparr>bucket = [older_snapshot,
                ledger_object 2 [(''gcp_inventory_20240101-000000.json'', ''inventory-1'')]],
      indexes = [''inventory-1''], trace = []\<rparr>"

definition store_index_absent :: world where
  "store_index_absent = store_ingested\<lparr>indexes := []\<rparr>"

definition start_inputs :: ingestion_inputs where
  "start_inputs = \<lparr>index_name_input = ''inventory-1'', start_ingestion_clicked = True\<rparr>"

text \<open>
  A store with two ingested snapshots still in the bucket, where the key that is greater
  in the lexicographic order belongs to the snapshot that was modified first.
\<close>

definition first_modified :: s3_object where
  "first_modified = \<lparr>Key = ''copilot/inventory_b.json'', LastModified = 1, Body = Opaque\<rparr>"

definition last_modified :: s3_object where
  "last_modified = \<lparr>Key = ''copilot/inventory_a.json'', LastModified = 5, Body = Opaque\<rparr>"

definition two_ingested_ledger :: ledger where
  "two_ingested_ledger = [(''inventory_b.json'', ''index-b''), (''inventory_a.json'', ''index-a'')]"

definition store_two_ingested :: world where
  "store_two_ingested =
     \<lparr>bucket = [first_modified, last_modified, ledger_object 6 two_ingested_ledger],
      indexes = [''index-a'', ''index-b''], trace = []\<rparr>"

text \<open>
  Services that answer every call: the search returns the given matches, the completion
  service a fixed text. The same services with every index creation refused; and with,
  besides, no handle given on an index.
\<close>

definition answering :: "scored_match list \<Rightarrow> nat services" where
  "answering ms =
     \<lparr>list_indexes_fault = (\<lambda>attempt. None), create_index_fault = (\<lambda>attempt. None),
      index_handle_fault = None, embedding = (\<lambda>txt. Inr 0),
      index_query = (\<lambda>v top_k. Inr \<lparr>matches = Some (take top_k ms)\<rparr>),
      completion = (\<lambda>role prompt. Inr ''Two buckets.\<newline>Reference: bucket list'')\<rparr>"

definition creation_refused :: "scored_match list \<Rightarrow> nat services" where
  "creation_refused ms =
     (answering ms)\<lparr>create_index_fault := (\<lambda>attempt. Some (ServiceError ''quota exceeded''))\<rparr>"

definition creation_refused_no_handle :: "scored_match list \<Rightarrow> nat services" where
  "creation_refused_no_handle ms =
     (creation_refused ms)\<lparr>index_handle_fault := Some (ServiceError ''index not found'')\<rparr>"

text \<open>
  Matches with and without a \<open>content\<close> field in their metadata; three matches of a
  search, the second without the field; and a question that was submitted.
\<close>

definition with_content :: "string \<Rightarrow> string \<Rightarrow> scored_match" where
  "with_content i c = \<lparr>match_id = i, metadata = Some [(''source'', ''s3''), (''content'', c)]\<rparr>"

definition without_content :: "string \<Rightarrow> scored_match" where
  "without_content i = \<lparr>match_id = i, metadata = Some [(''source'', ''s3'')]\<rparr>"

definition three_matches :: "scored_match list" where
  "three_matches =
     [with_content ''v1'' ''bucket a'', without_content ''v2'', with_content ''v3'' ''bucket c'']"

definition ask :: qna_inputs where
  "ask = \<lparr>user_question = ''How many buckets exist?'', submitted = True\<rparr>"

section \<open>Facts about the primitives\<close>

text \<open>The string tests are the standard notions of prefix, suffix and contiguous sublist.\<close>

lemma startswith_prefix: "startswith s p \<longleftrightarrow> prefix p s"
  unfolding startswith_def
  by (metis append_eq_conv_conj prefix_def take_is_prefix)

lemma endswith_suffix: "endswith s suf \<longleftrightarrow> suffix suf s"
  unfolding endswith_def
  by (metis append_eq_conv_conj suffix_def suffix_drop suffix_length_le length_append
      add_diff_cancel_right')

lemma str_contains_sublist: "str_contains s sub \<longleftrightarrow> sublist sub s"
  by (induction s) (auto simp: startswith_prefix sublist_Cons_right)

text \<open>
  \<open>py_split\<close> cuts at every separator and nowhere else: joining the pieces gives the
  string back, and no piece holds a separator.
\<close>

lemma py_split_not_Nil: "py_split sep s \<noteq> []"
  by (induction s) (auto split: list.splits)

lemma py_join_py_split: "py_join sep (py_split sep s) = s"
proof (induction s)
  case Nil
  then show ?case by simp
next
  case (Cons c cs)
  then show ?case
    using py_split_not_Nil [of sep cs]
    by (cases "py_split sep cs"; cases "tl (py_split sep cs)") auto
qed

lemma py_split_no_sep: "l \<in> set (py_split sep s) \<Longrightarrow> sep \<notin> set l"
  by (induction s arbitrary: l) (auto split: if_splits list.splits)

text \<open>The first element of a list sorted in descending order is a maximum of the list.\<close>

lemma py_sorted_reverse_set: "set (py_sorted_reverse k xs) = set xs"
  by (simp add: py_sorted_reverse_def)

lemma py_sorted_reverse_Nil: "py_sorted_reverse k xs = [] \<longleftrightarrow> xs = []"
  by (metis py_sorted_reverse_set set_empty)

lemma hd_py_sorted_reverse:
  assumes "xs \<noteq> []"
  shows "hd (py_sorted_reverse k xs) \<in> set xs"
    and "\<forall>x\<in>set xs. k x \<le> k (hd (py_sorted_reverse k xs))"
proof -
  let ?ys = "sort_key k (rev xs)"
  have ne: "?ys \<noteq> []"
    using assms by (metis set_empty set_rev set_sort)
  have hd: "hd (py_sorted_reverse k xs) = last ?ys"
    using ne by (simp add: py_sorted_reverse_def hd_rev)
  show "hd (py_sorted_reverse k xs) \<in> set xs"
    using ne hd last_in_set [OF ne] by simp
  have sorted: "sorted (map k ?ys)"
    by simp
  show "\<forall>x\<in>set xs. k x \<le> k (hd (py_sorted_reverse k xs))"
  proof
    fix x
    assume "x \<in> set xs"
    then have "x \<in> set ?ys"
      by simp
    then obtain i where i: "i < length ?ys" "?ys ! i = x"
      by (meson in_set_conv_nth)
    have "map k ?ys ! i \<le> map k ?ys ! (length ?ys - 1)"
      using i sorted by (intro sorted_nth_mono) auto
    then show "k x \<le> k (hd (py_sorted_reverse k xs))"
      using i ne by (simp add: hd last_conv_nth)
  qed
qed

section \<open>Selection of the latest snapshot\<close>

lemma json_files_set: "set (json_files contents) = {obj \<in> set contents. snapshot_candidate obj}"
  by (auto simp: json_files_def py_sorted_reverse_set endswith_suffix str_contains_sublist
      snapshot_candidate_def)

lemma latest_json_file_None:
  "latest_json_file contents = None \<longleftrightarrow> (\<forall>obj\<in>set contents. \<not> snapshot_candidate obj)"
proof -
  have "latest_json_file contents = None \<longleftrightarrow> json_files contents = []"
    by (simp add: latest_json_file_def split: list.splits)
  also have "\<dots> \<longleftrightarrow> set (json_files contents) = {}"
    by simp
  finally show ?thesis
    by (auto simp: json_files_set)
qed

lemma latest_json_file_Some:
  assumes "latest_json_file contents = Some obj"
  shows "obj \<in> set contents" "snapshot_candidate obj"
    "\<forall>x\<in>set contents. snapshot_candidate x \<longrightarrow> LastModified x \<le> LastModified obj"
proof -
  let ?c = "filter (\<lambda>obj. endswith (Key obj) ''.json'' \<and> \<not> str_contains (Key obj) ''ingestion_log'')
              contents"
  have jf: "json_files contents = py_sorted_reverse LastModified ?c"
    by (simp add: json_files_def)
  from assms have ne: "json_files contents \<noteq> []" and hd: "obj = hd (json_files contents)"
    by (auto simp: latest_json_file_def split: list.splits)
  then have cne: "?c \<noteq> []"
    by (simp add: jf py_sorted_reverse_Nil)
  have "obj \<in> set (json_files contents)"
    using ne hd by simp
  then show "obj \<in> set contents" "snapshot_candidate obj"
    by (auto simp: json_files_set)
  have "\<forall>x\<in>set ?c. LastModified x \<le> LastModified obj"
    using hd_py_sorted_reverse(2) [OF cne, of LastModified] by (simp add: hd jf)
  then show "\<forall>x\<in>set contents. snapshot_candidate x \<longrightarrow> LastModified x \<le> LastModified obj"
    by (auto simp: endswith_suffix str_contains_sublist snapshot_candidate_def)
qed

lemma latest_json_file_unique:
  assumes d: "distinct (map LastModified contents)"
    and o: "obj \<in> set contents" "snapshot_candidate obj"
      "\<forall>x\<in>set contents. snapshot_candidate x \<longrightarrow> LastModified x \<le> LastModified obj"
  shows "latest_json_file contents = Some obj"
proof -
  have "latest_json_file contents \<noteq> None"
    using o by (auto simp: latest_json_file_None)
  then obtain obj' where s: "latest_json_file contents = Some obj'"
    by auto
  note p = latest_json_file_Some [OF s]
  have "LastModified obj' = LastModified obj"
    using o p by (meson order_antisym)
  moreover have "inj_on LastModified (set contents)"
    using d by (simp add: distinct_map)
  ultimately have "obj' = obj"
    using o(1) p(1) by (meson inj_onD)
  then show ?thesis
    using s by simp
qed

text \<open>
  C3, as the code has it. The orchestrator filters the listing before it sorts, so
  "latest" is the newest of the snapshot candidates, not of all listed objects: for every
  listing with pairwise-distinct modification times, the selected object is exactly the
  candidate (key ending in \<open>.json\<close>, without \<open>ingestion_log\<close>) whose modification time is
  maximal among the candidates, nothing is selected exactly when there is no candidate,
  and the selection is the same for every reordering of the listing.
\<close>

theorem latest_json_file_is_newest_candidate:
  assumes "distinct (map LastModified contents)"
  shows "(latest_json_file contents = Some obj \<longleftrightarrow>
            obj \<in> set contents \<and> snapshot_candidate obj \<and>
            (\<forall>x\<in>set contents. snapshot_candidate x \<longrightarrow> LastModified x \<le> LastModified obj))
       \<and> (latest_json_file contents = None \<longleftrightarrow> (\<forall>x\<in>set contents. \<not> snapshot_candidate x))
       \<and> (\<forall>contents'. mset contents' = mset contents \<longrightarrow>
             latest_json_file contents' = latest_json_file contents)"
proof (intro conjI allI impI)
  show "latest_json_file contents = Some obj \<longleftrightarrow>
            obj \<in> set contents \<and> snapshot_candidate obj \<and>
            (\<forall>x\<in>set contents. snapshot_candidate x \<longrightarrow> LastModified x \<le> LastModified obj)"
    using latest_json_file_Some latest_json_file_unique [OF assms] by blast
  show "latest_json_file contents = None \<longleftrightarrow> (\<forall>x\<in>set contents. \<not> snapshot_candidate x)"
    by (rule latest_json_file_None)
next
  fix contents'
  assume m: "mset contents' = mset contents"
  then have s: "set contents' = set contents"
    by (rule mset_eq_setD)
  show "latest_json_file contents' = latest_json_file contents"
  proof (cases "latest_json_file contents")
    case None
    then have "latest_json_file contents' = None"
      using s by (simp add: latest_json_file_None)
    then show ?thesis
      using None by simp
  next
    case (Some obj)
    have "distinct (map LastModified contents')"
      using assms m by (metis mset_eq_imp_distinct_iff mset_map)
    then show ?thesis
      using latest_json_file_Some [OF Some] s Some
      by (simp add: latest_json_file_unique)
  qed
qed

text \<open>
  The theorem at a listing of two snapshots and the ledger: the newer snapshot is
  selected, also when the listing is reversed.
\<close>

theorem latest_json_file_is_newest_candidate_witness:
  "distinct (map LastModified two_snapshot_listing)
   \<and> latest_json_file two_snapshot_listing = Some newer_snapshot
   \<and> latest_json_file (rev two_snapshot_listing) = Some newer_snapshot"
proof -
  have d: "distinct (map LastModified two_snapshot_listing)"
    by (simp add: two_snapshot_listing_def older_snapshot_def newer_snapshot_def ledger_object_def)
  have c: "snapshot_candidate newer_snapshot" "snapshot_candidate older_snapshot"
    "\<not> snapshot_candidate (ledger_object 2 [])"
    unfolding snapshot_candidate_def newer_snapshot_def older_snapshot_def ledger_object_def
    by code_simp+
  have m: "newer_snapshot \<in> set two_snapshot_listing \<and> snapshot_candidate newer_snapshot \<and>
      (\<forall>x\<in>set two_snapshot_listing. snapshot_candidate x \<longrightarrow> LastModified x \<le> LastModified newer_snapshot)"
    using c by (simp add: two_snapshot_listing_def older_snapshot_def newer_snapshot_def)
  note t = latest_json_file_is_newest_candidate [OF d, of newer_snapshot]
  have l: "latest_json_file two_snapshot_listing = Some newer_snapshot"
    using t m by blast
  have "mset (rev two_snapshot_listing) = mset two_snapshot_listing"
    by simp
  then have "latest_json_file (rev two_snapshot_listing) = latest_json_file two_snapshot_listing"
    using t by blast
  then show ?thesis
    using d l by simp
qed

text \<open>
  The claim as stated, for every list of store objects, fails where an object that is
  not a candidate is the newest: in the listing below the ledger was modified last, and
  the orchestrator selects the snapshot, whose modification time is not the maximum.
\<close>

theorem latest_json_file_not_newest_of_listing:
  "distinct (map LastModified newer_ledger_listing)
   \<and> latest_json_file newer_ledger_listing = Some older_snapshot
   \<and> ledger_object 2 [] \<in> set newer_ledger_listing
   \<and> LastModified older_snapshot < LastModified (ledger_object 2 [])"
  by (simp add: newer_ledger_listing_def older_snapshot_def ledger_object_def latest_json_file_def
      json_files_def py_sorted_reverse_def endswith_def startswith_def)

section \<open>Reference extraction\<close>

text \<open>
  C6. For every completion text, \<open>extract_references\<close> returns exactly the lines (the
  pieces between newline characters) that begin with the literal prefix \<open>Reference:\<close>, in
  their original order; on the text of the specification's example it returns the two
  reference lines, and a text none of whose lines begins with the prefix gives the empty
  list.
\<close>

theorem extract_references_prefix_lines:
  "extract_references report = filter (prefix ''Reference:'') (py_split CHR ''\<newline>'' report)
   \<and> subseq (extract_references report) (py_split CHR ''\<newline>'' report)
   \<and> py_join CHR ''\<newline>'' (py_split CHR ''\<newline>'' report) = report
   \<and> (\<forall>line\<in>set (py_split CHR ''\<newline>'' report). CHR ''\<newline>'' \<notin> set line)
   \<and> extract_references ''line1\<newline>Reference: A\<newline>something\<newline>Reference: B''
       = [''Reference: A'', ''Reference: B'']
   \<and> ((\<forall>line\<in>set (py_split CHR ''\<newline>'' report). \<not> prefix ''Reference:'' line)
        \<longrightarrow> extract_references report = [])"
proof -
  have e: "extract_references report = filter (prefix ''Reference:'') (py_split CHR ''\<newline>'' report)"
    by (simp add: extract_references_def startswith_prefix)
  have x: "extract_references ''line1\<newline>Reference: A\<newline>something\<newline>Reference: B''
       = [''Reference: A'', ''Reference: B'']"
    by (simp add: extract_references_def startswith_def)
  show ?thesis
    using e x by (simp add: py_join_py_split py_split_no_sep)
qed

theorem extract_references_prefix_lines_witness:
  "py_split CHR ''\<newline>'' ''see Reference: A\<newline>reference: b''
     = [''see Reference: A'', ''reference: b'']
   \<and> extract_references ''see Reference: A\<newline>reference: b'' = []"
proof -
  have h: "\<forall>line\<in>set (py_split CHR ''\<newline>'' ''see Reference: A\<newline>reference: b'').
      \<not> prefix ''Reference:'' line"
    by simp
  have "extract_references ''see Reference: A\<newline>reference: b'' = []"
    using h extract_references_prefix_lines [of "''see Reference: A\<newline>reference: b''"]
    by blast
  then show ?thesis
    by simp
qed

section \<open>Effects of the store operations\<close>

lemma emit_simps [simp]:
  "bucket (emit e w) = bucket w" "indexes (emit e w) = indexes w" "trace (emit e w) = trace w @ [e]"
  by (simp_all add: emit_def)

lemma issued_append: "trace w' = trace w @ es \<Longrightarrow> issued w w' = es"
  by (simp add: issued_def)




lemma load_ingestion_log_world:
  "snd (load_ingestion_log f w) = emit (S3_download_file log_key) w"
  by (simp add: load_ingestion_log_def s3_download_file_def Let_def split: option.splits)

lemma list_json_files_ok:
  assumes "list_objects_fault f = None"
  shows "list_json_files f w
           = (json_files (listed prefix_dir (bucket w)), emit (S3_list_objects_v2 prefix_dir) w)"
  using assms
  by (simp add: list_json_files_def s3_list_objects_v2_def get_contents_def Let_def json_files_def
      py_sorted_reverse_def)

lemma list_json_files_effect:
  "\<exists>files w1 es. list_json_files f w = (files, w1) \<and> bucket w1 = bucket w \<and> indexes w1 = indexes w
      \<and> trace w1 = trace w @ S3_list_objects_v2 prefix_dir # es
      \<and> (es = [] \<or> (\<exists>e. es = [St (List_failed e)]))
      \<and> (\<exists>contents. files = json_files contents)"
proof (cases "list_objects_fault f")
  case None
  then show ?thesis
    by (simp add: list_json_files_def s3_list_objects_v2_def Let_def) blast
next
  case (Some e)
  have "[] = json_files []"
    by (simp add: json_files_def py_sorted_reverse_def)
  then show ?thesis
    using Some by (simp add: list_json_files_def s3_list_objects_v2_def Let_def) blast
qed

section \<open>A failing load step\<close>

lemma ingest_try_load_fails:
  assumes "load_and_index_fault f = Some e"
  shows "\<exists>e' w' es. ingest_try v f key name idx L w = (Some e', L, w')
           \<and> bucket w' = bucket w \<and> indexes w' = indexes w \<and> trace w' = trace w @ es
           \<and> set es \<subseteq> {S3_download_file key, St (Ingesting name idx),
                         Loader_init bucket_name prefix_dir idx,
                         Loader_load_and_index}
           \<and> (Loader_load_and_index \<in> set es \<longrightarrow> e' = e)"
  using assms
  by (auto simp: ingest_try_def s3_download_file_def loader_init_def loader_load_and_index_def
      Let_def split: option.splits)

lemma start_ingestion_load_fails:
  assumes "load_and_index_fault f = Some e"
  shows "\<exists>e' w' es. start_ingestion v f key name idx L w = (L, w')
           \<and> bucket w' = bucket w \<and> indexes w' = indexes w
           \<and> trace w' = trace w @ es @ [St (Ingestion_failed e')]
           \<and> set es \<subseteq> {S3_download_file key, St (Ingesting name idx),
                         Loader_init bucket_name prefix_dir idx,
                         Loader_load_and_index}
           \<and> (Loader_load_and_index \<in> set es \<longrightarrow> e' = e)"
proof -
  from ingest_try_load_fails [OF assms, of v key name idx L w]
  obtain e' w' es where h: "ingest_try v f key name idx L w = (Some e', L, w')"
      "bucket w' = bucket w" "indexes w' = indexes w" "trace w' = trace w @ es"
      "set es \<subseteq> {S3_download_file key, St (Ingesting name idx),
                         Loader_init bucket_name prefix_dir idx,
                  Loader_load_and_index}"
      "Loader_load_and_index \<in> set es \<longrightarrow> e' = e"
    by blast
  show ?thesis
    apply (rule exI [of _ e'], rule exI [of _ "emit (St (Ingestion_failed e')) w'"],
        rule exI [of _ es])
    using h by (simp add: start_ingestion_def)
qed

lemma orchestrator_load_fails:
  assumes "load_and_index_fault f = Some e"
  shows "\<exists>w' es. ingestion_orchestrator v f inp L w = (L, w')
           \<and> bucket w' = bucket w \<and> indexes w' = indexes w
           \<and> trace w' = trace w @ es \<and> es \<noteq> []
           \<and> (\<forall>k. S3_upload_file k \<notin> set es) \<and> (\<forall>k. S3_delete_object k \<notin> set es)
           \<and> St Ingestion_completed \<notin> set es
           \<and> (Loader_load_and_index \<in> set es \<longrightarrow> last es = St (Ingestion_failed e))"
proof -
  obtain files w1 es1 where l: "list_json_files f w = (files, w1)" "bucket w1 = bucket w"
      "indexes w1 = indexes w" "trace w1 = trace w @ S3_list_objects_v2 prefix_dir # es1"
      "es1 = [] \<or> (\<exists>e. es1 = [St (List_failed e)])"
    using list_json_files_effect [of f w] by blast
  show ?thesis
  proof (cases files)
    case Nil
    then show ?thesis
      using l by (auto simp: ingestion_orchestrator_def)
  next
    case (Cons obj rest)
    let ?key = "Key obj" and ?name = "basename (Key obj)"
    let ?w2 = "emit (St (Latest_json ?name)) w1"
    show ?thesis
    proof (cases "map_of L ?name")
      case (Some recorded)
      then show ?thesis
        using l Cons by (auto simp: ingestion_orchestrator_def)
    next
      case None
      show ?thesis
      proof (cases "index_name_input inp \<noteq> [] \<and> start_ingestion_clicked inp")
        case False
        then show ?thesis
          using l Cons None by (auto simp: ingestion_orchestrator_def)
      next
        case True
        obtain e' w' es where s:
            "start_ingestion v f ?key ?name (index_name_input inp) L ?w2 = (L, w')"
            "bucket w' = bucket ?w2" "indexes w' = indexes ?w2"
            "trace w' = trace ?w2 @ es @ [St (Ingestion_failed e')]"
            "set es \<subseteq> {S3_download_file ?key, St (Ingesting ?name (index_name_input inp)),
                        Loader_init bucket_name prefix_dir (index_name_input inp),
                        Loader_load_and_index}"
            "Loader_load_and_index \<in> set es \<longrightarrow> e' = e"
          using start_ingestion_load_fails [OF assms, of v ?key ?name "index_name_input inp" L ?w2]
          by blast
        have o: "ingestion_orchestrator v f inp L w = (L, w')"
          using l Cons None True s(1) by (simp add: ingestion_orchestrator_def)
        show ?thesis
          apply (rule exI [of _ w'])
          apply (rule exI [of _ "S3_list_objects_v2 prefix_dir # es1 @ St (Latest_json ?name)
                                   # es @ [St (Ingestion_failed e')]"])
          using o l s by auto
      qed
    qed
  qed
qed

text \<open>A run sees the trace only to append to it: from worlds with the same store it
  computes the same result and leaves the same store.\<close>

lemma ingest_try_same_store:
  assumes "same_store w w'"
  shows "fst (ingest_try v f key name idx L w) = fst (ingest_try v f key name idx L w')
       \<and> fst (snd (ingest_try v f key name idx L w)) = fst (snd (ingest_try v f key name idx L w'))
       \<and> same_store (snd (snd (ingest_try v f key name idx L w)))
            (snd (snd (ingest_try v f key name idx L w')))"
  using assms
  by (auto simp: same_store_def ingest_try_def s3_download_file_def loader_init_def
      loader_load_and_index_def save_ingestion_log_def s3_upload_file_def s3_delete_object_def
      Let_def split: option.splits)

lemma orchestrator_same_store:
  assumes "same_store w w'"
  shows "fst (ingestion_orchestrator v f inp L w) = fst (ingestion_orchestrator v f inp L w')
       \<and> same_store (snd (ingestion_orchestrator v f inp L w))
            (snd (ingestion_orchestrator v f inp L w'))"
proof -
  have l: "fst (list_json_files f w) = fst (list_json_files f w')
      \<and> same_store (snd (list_json_files f w)) (snd (list_json_files f w'))"
    using assms
    by (auto simp: same_store_def list_json_files_def s3_list_objects_v2_def Let_def
        split: option.splits)
  have s: "\<And>key name idx u u'. same_store u u' \<Longrightarrow>
      fst (start_ingestion v f key name idx L u) = fst (start_ingestion v f key name idx L u')
      \<and> same_store (snd (start_ingestion v f key name idx L u))
           (snd (start_ingestion v f key name idx L u'))"
    subgoal for key name idx u u'
      using ingest_try_same_store [of u u' v f key name idx L]
      by (auto simp: start_ingestion_def same_store_def split: prod.splits option.splits)
    done
  have e: "\<And>u u' ev. same_store u u' \<Longrightarrow> same_store (emit ev u) (emit ev u')"
    by (simp add: same_store_def)
  show ?thesis
    using l
    by (cases "list_json_files f w"; cases "list_json_files f w'")
       (auto simp: ingestion_orchestrator_def Let_def s e split: list.splits option.splits)
qed

lemma page_same_store:
  assumes "same_store w w'"
  shows "fst (ingestion_page v f inp w) = fst (ingestion_page v f inp w')
       \<and> same_store (snd (ingestion_page v f inp w)) (snd (ingestion_page v f inp w'))"
proof -
  obtain r u r' u' where lw: "load_ingestion_log f w = (r, u)"
    and lw': "load_ingestion_log f w' = (r', u')"
    by fastforce
  have "fst (load_ingestion_log f w) = fst (load_ingestion_log f w')
      \<and> same_store (snd (load_ingestion_log f w)) (snd (load_ingestion_log f w'))"
    using assms
    by (auto simp: same_store_def load_ingestion_log_def s3_download_file_def Let_def
        split: option.splits)
  then have l: "r' = r" "same_store u u'"
    using lw lw' by simp_all
  show ?thesis
  proof (cases r)
    case (Inl e)
    then show ?thesis
      using lw lw' l by (simp add: ingestion_page_def)
  next
    case (Inr L)
    obtain L1 u1 L2 u2 where o: "ingestion_orchestrator v f inp L u = (L1, u1)"
        "ingestion_orchestrator v f inp L u' = (L2, u2)"
      by fastforce
    then have "L1 = L2 \<and> same_store u1 u2"
      using orchestrator_same_store [OF l(2), of v f inp L] by simp
    then show ?thesis
      using lw lw' l Inr o by (simp add: ingestion_page_def)
  qed
qed

text \<open>
  C1. For every ingestion run in which \<open>loader.load_and_index\<close> raises: the run ends with
  the ledger it loaded (no record added), the bucket is as it was (the persisted ledger
  is unchanged and the selected snapshot is still there), no upload and no delete was
  issued, completion is not reported, and a run that reached the load step ends by
  reporting that failure. The snapshot remains eligible: a later run from the world the
  failed run left computes what it would have computed from the world before it.
\<close>

theorem failed_load_and_index_keeps_ledger_and_snapshot:
  assumes "load_and_index_fault f = Some e"
    and "ingestion_page v f inp w = (r, w')"
  shows "r = fst (load_ingestion_log f w)
       \<and> bucket w' = bucket w
       \<and> (\<forall>k. S3_upload_file k \<notin> set (issued w w'))
       \<and> (\<forall>k. S3_delete_object k \<notin> set (issued w w'))
       \<and> St Ingestion_completed \<notin> set (issued w w')
       \<and> (Loader_load_and_index \<in> set (issued w w')
            \<longrightarrow> last (issued w w') = St (Ingestion_failed e))
       \<and> (\<forall>v2 f2 inp2.
            fst (ingestion_page v2 f2 inp2 w') = fst (ingestion_page v2 f2 inp2 w)
            \<and> bucket (snd (ingestion_page v2 f2 inp2 w'))
                = bucket (snd (ingestion_page v2 f2 inp2 w)))"
proof -
  obtain r0 u where lw: "load_ingestion_log f w = (r0, u)"
    by fastforce
  then have u: "u = emit (S3_download_file log_key) w"
    using load_ingestion_log_world [of f w] by simp
  have main: "r = r0 \<and> bucket w' = bucket w \<and> indexes w' = indexes w
      \<and> (\<exists>es. trace w' = trace w @ es
            \<and> (\<forall>k. S3_upload_file k \<notin> set es) \<and> (\<forall>k. S3_delete_object k \<notin> set es)
            \<and> St Ingestion_completed \<notin> set es
            \<and> (Loader_load_and_index \<in> set es \<longrightarrow> last es = St (Ingestion_failed e)))"
  proof (cases r0)
    case (Inl e0)
    then have "r = r0" "w' = u"
      using assms(2) lw by (simp_all add: ingestion_page_def)
    then show ?thesis
      using u by simp
  next
    case (Inr L)
    obtain w2 es where o: "ingestion_orchestrator v f inp L u = (L, w2)"
        "bucket w2 = bucket u" "indexes w2 = indexes u" "trace w2 = trace u @ es" "es \<noteq> []"
        "\<forall>k. S3_upload_file k \<notin> set es" "\<forall>k. S3_delete_object k \<notin> set es"
        "St Ingestion_completed \<notin> set es"
        "Loader_load_and_index \<in> set es \<longrightarrow> last es = St (Ingestion_failed e)"
      using orchestrator_load_fails [OF assms(1), of v inp L u] by blast
    have "r = r0" "w' = w2"
      using assms(2) lw Inr o(1) by (simp_all add: ingestion_page_def)
    moreover have "trace w2 = trace w @ (S3_download_file log_key # es)"
      using o(4) u by simp
    moreover have "Loader_load_and_index \<in> set (S3_download_file log_key # es)
        \<longrightarrow> last (S3_download_file log_key # es) = St (Ingestion_failed e)"
      using o(5,9) by simp
    ultimately show ?thesis
      using o(2,3,6,7,8) u by (intro conjI exI [of _ "S3_download_file log_key # es"]) simp_all
  qed
  then obtain es where es: "trace w' = trace w @ es"
      "\<forall>k. S3_upload_file k \<notin> set es" "\<forall>k. S3_delete_object k \<notin> set es"
      "St Ingestion_completed \<notin> set es"
      "Loader_load_and_index \<in> set es \<longrightarrow> last es = St (Ingestion_failed e)"
    by blast
  have i: "issued w w' = es"
    using es(1) by (rule issued_append)
  have "same_store w' w"
    using main by (simp add: same_store_def)
  then have retry: "\<forall>v2 f2 inp2.
      fst (ingestion_page v2 f2 inp2 w') = fst (ingestion_page v2 f2 inp2 w)
      \<and> bucket (snd (ingestion_page v2 f2 inp2 w')) = bucket (snd (ingestion_page v2 f2 inp2 w))"
    using page_same_store [of w' w] by (simp add: same_store_def)
  show ?thesis
    using main lw i es retry by simp
qed

text \<open>
  The theorem at a store with one snapshot and an empty ledger: the run with the failing
  loader leaves the bucket as it was, and the retried run, with nothing failing, ingests
  that snapshot, records it and deletes it.
\<close>

theorem failed_load_and_index_keeps_ledger_and_snapshot_witness:
  "load_and_index_fault failing_loader = Some (ServiceError ''upsert failed'')
   \<and> ingestion_page App_py failing_loader start_inputs store_one_snapshot
       = (Inr [], store_one_snapshot\<lparr>trace :=
            [S3_download_file ''copilot/ingestion_log.json'', S3_list_objects_v2 ''copilot/'',
             St (Latest_json ''gcp_inventory_20240101-000000.json''),
             S3_download_file ''copilot/gcp_inventory_20240101-000000.json'',
             Loader_init ''datacrux-dev'' ''copilot/'' ''inventory-1'', Loader_load_and_index,
             St (Ingestion_failed (ServiceError ''upsert failed''))]\<rparr>)
   \<and> bucket (snd (ingestion_page App_py failing_loader start_inputs store_one_snapshot))
       = bucket store_one_snapshot
   \<and> bucket (snd (ingestion_page App_py no_faults start_inputs
                     (snd (ingestion_page App_py failing_loader start_inputs store_one_snapshot))))
       = [ledger_object 10 [(''gcp_inventory_20240101-000000.json'', ''inventory-1'')]]"
proof -
  have h: "load_and_index_fault failing_loader = Some (ServiceError ''upsert failed'')"
    by (simp add: failing_loader_def no_faults_def)
  have run: "ingestion_page App_py failing_loader start_inputs store_one_snapshot
       = (Inr [], store_one_snapshot\<lparr>trace :=
            [S3_download_file ''copilot/ingestion_log.json'', S3_list_objects_v2 ''copilot/'',
             St (Latest_json ''gcp_inventory_20240101-000000.json''),
             S3_download_file ''copilot/gcp_inventory_20240101-000000.json'',
             Loader_init ''datacrux-dev'' ''copilot/'' ''inventory-1'', Loader_load_and_index,
             St (Ingestion_failed (ServiceError ''upsert failed''))]\<rparr>)"
    by code_simp
  note t = failed_load_and_index_keeps_ledger_and_snapshot [OF h run]
  have retry: "bucket (snd (ingestion_page App_py no_faults start_inputs store_one_snapshot))
      = [ledger_object 10 [(''gcp_inventory_20240101-000000.json'', ''inventory-1'')]]"
    by code_simp
  have "bucket (snd (ingestion_page App_py no_faults start_inputs
                     (snd (ingestion_page App_py failing_loader start_inputs store_one_snapshot))))
      = bucket (snd (ingestion_page App_py no_faults start_inputs store_one_snapshot))"
    using t run by simp
  then show ?thesis
    using h t retry run by simp
qed

section \<open>A snapshot that is already in the ledger\<close>

text \<open>
  C2. For every ledger \<open>L\<close> and listing: if the base name of the selected latest file is
  a key of \<open>L\<close>, with \<open>recorded\<close> the index name \<open>L\<close> holds for it, the orchestrator returns
  \<open>L\<close> as it is and all it does after the listing is to show the file name and \<open>recorded\<close>:
  no download, no loader, no save, no delete, and the bucket is untouched.
\<close>

theorem already_ingested_is_skipped:
  assumes "list_objects_fault f = None"
    and "latest_json_file (listed prefix_dir (bucket w)) = Some obj"
    and "map_of L (basename (Key obj)) = Some recorded"
  shows "ingestion_orchestrator v f inp L w =
           (L, w\<lparr>trace := trace w @ [S3_list_objects_v2 prefix_dir,
                                      St (Latest_json (basename (Key obj))),
                                      St (Already_ingested recorded)]\<rparr>)"
proof -
  from assms(2) obtain rest where "json_files (listed prefix_dir (bucket w)) = obj # rest"
    by (auto simp: latest_json_file_def split: list.splits)
  then show ?thesis
    using assms(1,3)
    by (simp add: ingestion_orchestrator_def list_json_files_ok emit_def)
qed

text \<open>
  The theorem at the store whose ledger records the one snapshot, with the operator
  asking for an ingestion into another index.
\<close>

theorem already_ingested_is_skipped_witness:
  "latest_json_file (listed prefix_dir (bucket store_ingested)) = Some older_snapshot
   \<and> ingestion_orchestrator Inventory_py no_faults
        \<lparr>index_name_input = ''inventory-2'', start_ingestion_clicked = True\<rparr>
        [(''gcp_inventory_20240101-000000.json'', ''inventory-1'')] store_ingested
       = ([(''gcp_inventory_20240101-000000.json'', ''inventory-1'')],
          store_ingested\<lparr>trace := [S3_list_objects_v2 ''copilot/'',
                                     St (Latest_json ''gcp_inventory_20240101-000000.json''),
                                     St (Already_ingested ''inventory-1'')]\<rparr>)"
proof -
  have f: "list_objects_fault no_faults = None"
    by (simp add: no_faults_def)
  have l: "latest_json_file (listed prefix_dir (bucket store_ingested)) = Some older_snapshot"
    by code_simp
  have m: "map_of [(''gcp_inventory_20240101-000000.json'', ''inventory-1'')]
             (basename (Key older_snapshot)) = Some ''inventory-1''"
    by (simp add: older_snapshot_def basename_def)
  have n: "basename (Key older_snapshot) = ''gcp_inventory_20240101-000000.json''"
    by (simp add: older_snapshot_def basename_def)
  have t: "trace store_ingested = []"
    by (simp add: store_ingested_def)
  show ?thesis
    using already_ingested_is_skipped [OF f l m, of Inventory_py
        "\<lparr>index_name_input = ''inventory-2'', start_ingestion_clicked = True\<rparr>"] l n t
    by (simp add: prefix_dir_def)
qed

section \<open>Loading the ledger\<close>

text \<open>
  C4, as the code has it. \<open>load_ingestion_log\<close> returns the empty mapping when the ledger
  object does not exist, and also for every other fetch failure that is a \<open>ClientError\<close>,
  whatever its error code; a fetch failure that is not a \<open>ClientError\<close> is surfaced to the
  caller, as is a ledger that cannot be parsed. It never changes the bucket.
\<close>

theorem load_ingestion_log_empty_on_client_error:
  "(download_fault f log_key = None \<and> lookup_object log_key (bucket w) = None
      \<longrightarrow> fst (load_ingestion_log f w) = Inr [])
   \<and> (download_fault f log_key = Some e \<and> is_ClientError e
      \<longrightarrow> fst (load_ingestion_log f w) = Inr [])
   \<and> (download_fault f log_key = Some e \<and> \<not> is_ClientError e
      \<longrightarrow> fst (load_ingestion_log f w) = Inl e)
   \<and> (download_fault f log_key = None \<and> lookup_object log_key (bucket w) = Some obj
      \<longrightarrow> fst (load_ingestion_log f w) = json_load (Body obj))
   \<and> bucket (snd (load_ingestion_log f w)) = bucket w"
proof -
  have "bucket (snd (load_ingestion_log f w)) = bucket w"
    by (simp add: load_ingestion_log_world)
  moreover have "download_fault f log_key = None \<and> lookup_object log_key (bucket w) = None
      \<longrightarrow> fst (load_ingestion_log f w) = Inr []"
    by (simp add: load_ingestion_log_def s3_download_file_def Let_def)
  moreover have "download_fault f log_key = Some e \<and> is_ClientError e
      \<longrightarrow> fst (load_ingestion_log f w) = Inr []"
    by (simp add: load_ingestion_log_def s3_download_file_def Let_def)
  moreover have "download_fault f log_key = Some e \<and> \<not> is_ClientError e
      \<longrightarrow> fst (load_ingestion_log f w) = Inl e"
    by (simp add: load_ingestion_log_def s3_download_file_def Let_def)
  moreover have "download_fault f log_key = None \<and> lookup_object log_key (bucket w) = Some obj
      \<longrightarrow> fst (load_ingestion_log f w) = json_load (Body obj)"
    by (simp add: load_ingestion_log_def s3_download_file_def Let_def)
  ultimately show ?thesis
    by blast
qed

text \<open>
  The theorem at a store without a ledger, and at the store with a ledger when the
  connection fails.
\<close>

theorem load_ingestion_log_empty_on_client_error_witness:
  "lookup_object log_key (bucket \<lparr>bucket = [older_snapshot], indexes = [], trace = []\<rparr>) = None
   \<and> fst (load_ingestion_log no_faults \<lparr>bucket = [older_snapshot], indexes = [], trace = []\<rparr>)
       = Inr []
   \<and> fst (load_ingestion_log no_connection store_ingested)
       = Inl (BotoCoreError ''EndpointConnectionError'')"
proof -
  let ?w = "\<lparr>bucket = [older_snapshot], indexes = [], trace = []\<rparr>"
  have a: "download_fault no_faults log_key = None"
    by (simp add: no_faults_def)
  have b: "lookup_object log_key (bucket ?w) = None"
    by (simp add: lookup_object_def older_snapshot_def log_key_def)
  have c: "download_fault no_connection log_key = Some (BotoCoreError ''EndpointConnectionError'')"
    by (simp add: no_connection_def no_faults_def)
  have d: "\<not> is_ClientError (BotoCoreError ''EndpointConnectionError'')"
    by simp
  show ?thesis
    using load_ingestion_log_empty_on_client_error [of no_faults ?w "ClientError ''404''" older_snapshot] a b
      load_ingestion_log_empty_on_client_error [of no_connection store_ingested
        "BotoCoreError ''EndpointConnectionError''" older_snapshot] c d
    by simp
qed

text \<open>
  The claim as stated fails for a fetch failure that is a \<open>ClientError\<close> other than "not
  found": the ledger exists and records a snapshot, the download is refused with
  \<open>AccessDenied\<close>, and the caller gets the empty mapping instead of the failure.
\<close>

theorem load_ingestion_log_hides_access_denied:
  "lookup_object log_key (bucket store_ingested)
     = Some (ledger_object 2 [(''gcp_inventory_20240101-000000.json'', ''inventory-1'')])
   \<and> download_fault access_denied log_key = Some (ClientError ''AccessDenied'')
   \<and> fst (load_ingestion_log access_denied store_ingested) = Inr []"
  by (simp add: load_ingestion_log_def s3_download_file_def Let_def access_denied_def no_faults_def
      store_ingested_def lookup_object_def older_snapshot_def ledger_object_def log_key_def)

section \<open>The ledger object is never a snapshot\<close>

















section \<open>An empty extraction\<close>

lemma completion_calls_simps [simp]:
  "completion_calls [] = 0"
  "completion_calls (e # es) = (if is_completion_call e then 1 else 0) + completion_calls es"
  "completion_calls (es @ es') = completion_calls es + completion_calls es'"
  by (simp_all add: completion_calls_def)

lemma search_index_effect:
  "\<exists>es. trace (snd (search_index sv question top_k w)) = trace w @ es \<and> completion_calls es = 0
     \<and> bucket (snd (search_index sv question top_k w)) = bucket w"
  by (auto simp: search_index_def generate_embedding_def Let_def split: sum.splits)

lemma retrieve_loop_effect:
  "\<exists>es. trace (snd (retrieve_loop ms documents w)) = trace w @ es \<and> completion_calls es = 0
     \<and> bucket (snd (retrieve_loop ms documents w)) = bucket w"
proof (induction ms arbitrary: documents w)
  case Nil
  then show ?case by simp
next
  case (Cons m ms)
  show ?case
  proof (cases "content_of m")
    case (Inr c)
    then show ?thesis
      using Cons [of "documents @ [c]" w] by simp
  next
    case (Inl e)
    obtain es where "trace (snd (retrieve_loop ms documents (emit (St (Document_not_found (match_id m))) w)))
        = trace (emit (St (Document_not_found (match_id m))) w) @ es" "completion_calls es = 0"
      "bucket (snd (retrieve_loop ms documents (emit (St (Document_not_found (match_id m))) w)))
        = bucket (emit (St (Document_not_found (match_id m))) w)"
      using Cons [of documents "emit (St (Document_not_found (match_id m))) w"] by blast
    then show ?thesis
      using Inl by (intro exI [of _ "St (Document_not_found (match_id m)) # es"]) simp
  qed
qed

lemma retrieve_documents_effect:
  "\<exists>es. trace (snd (retrieve_documents qr max_docs w)) = trace w @ es \<and> completion_calls es = 0"
proof (cases "matches qr")
  case None
  then show ?thesis
    by (simp add: retrieve_documents_def)
next
  case (Some ms)
  then show ?thesis
    using retrieve_loop_effect [of "take max_docs ms" "[]" w] by (auto simp: retrieve_documents_def)
qed

lemma search_index_app_effect:
  "\<exists>es. trace (snd (search_index_app sv question top_k w)) = trace w @ es \<and> completion_calls es = 0"
  by (auto simp: search_index_app_def Let_def split: sum.splits)

text \<open>
  C5. In both engines: for every query whose search returned a result from which the
  extraction yields the empty list of documents, \<open>query\<close> returns the signal that nothing
  relevant was found (in \<open>GCP_GPT_Assistant.py\<close> the warning "No relevant documents found."
  with the result \<open>(None, [])\<close>, in \<open>app.py\<close> the answer "No relevant data found.") and
  issues no call to the completion service.
\<close>

theorem empty_extraction_skips_completion:
  "(search_index sv question 6 w = (Some query_result, w1)
      \<and> retrieve_documents query_result 3 w1 = ([], w2)
     \<longrightarrow> query sv question w = ((None, []), emit (St No_relevant_documents) w2)
         \<and> completion_calls (issued w (snd (query sv question w))) = 0)
   \<and> (search_index_app sv question 6 w = (Inr results, w1)
      \<and> retrieve_documents_app results 3 = Inr []
     \<longrightarrow> query_app sv question w = (Inr ''No relevant data found.'', w1)
         \<and> completion_calls (issued w (snd (query_app sv question w))) = 0)"
proof (intro conjI impI)
  assume a: "search_index sv question 6 w = (Some query_result, w1)
      \<and> retrieve_documents query_result 3 w1 = ([], w2)"
  then show q: "query sv question w = ((None, []), emit (St No_relevant_documents) w2)"
    by (simp add: query_def)
  obtain es1 where e1: "trace w1 = trace w @ es1" "completion_calls es1 = 0"
    using search_index_effect [of sv question 6 w] a by auto
  obtain es2 where e2: "trace w2 = trace w1 @ es2" "completion_calls es2 = 0"
    using retrieve_documents_effect [of query_result 3 w1] a by auto
  have "trace (emit (St No_relevant_documents) w2) = trace w @ (es1 @ es2 @ [St No_relevant_documents])"
    using e1 e2 by simp
  then have "issued w (emit (St No_relevant_documents) w2) = es1 @ es2 @ [St No_relevant_documents]"
    by (rule issued_append)
  then show "completion_calls (issued w (snd (query sv question w))) = 0"
    using q e1 e2 by simp
next
  assume a: "search_index_app sv question 6 w = (Inr results, w1)
      \<and> retrieve_documents_app results 3 = Inr []"
  then show q: "query_app sv question w = (Inr ''No relevant data found.'', w1)"
    by (simp add: query_app_def)
  obtain es1 where e1: "trace w1 = trace w @ es1" "completion_calls es1 = 0"
    using search_index_app_effect [of sv question 6 w] a by auto
  then have "issued w w1 = es1"
    by (simp add: issued_append)
  then show "completion_calls (issued w (snd (query_app sv question w))) = 0"
    using q e1 by simp
qed

text \<open>
  The theorem for a search that returns one match without a \<open>content\<close> field
  (\<open>GCP_GPT_Assistant.py\<close>) and for one that returns no match (\<open>app.py\<close>).
\<close>

theorem empty_extraction_skips_completion_witness:
  "retrieve_documents \<lparr>matches = Some [without_content ''v1'']\<rparr> 3
       (snd (search_index (answering [without_content ''v1'']) ''q'' 6 store_ingested))
     = ([], store_ingested\<lparr>trace := [Embeddings_create ''q'', Index_query 6,
                                       St (Document_not_found ''v1'')]\<rparr>)
   \<and> query (answering [without_content ''v1'']) ''q'' store_ingested
     = ((None, []), store_ingested\<lparr>trace := [Embeddings_create ''q'', Index_query 6,
                     St (Document_not_found ''v1''), St No_relevant_documents]\<rparr>)
   \<and> retrieve_documents_app \<lparr>matches = Some []\<rparr> 3 = Inr []
   \<and> query_app (answering []) ''q'' store_ingested
     = (Inr ''No relevant data found.'',
        store_ingested\<lparr>trace := [Embeddings_create ''q'', Index_query 6]\<rparr>)
   \<and> completion_calls (issued store_ingested
        (snd (query (answering [without_content ''v1'']) ''q'' store_ingested))) = 0"
proof -
  let ?w1 = "store_ingested\<lparr>trace := [Embeddings_create ''q'', Index_query 6]\<rparr>"
  let ?w2 = "store_ingested\<lparr>trace := [Embeddings_create ''q'', Index_query 6,
                                       St (Document_not_found ''v1'')]\<rparr>"
  have s: "search_index (answering [without_content ''v1'']) ''q'' 6 store_ingested
      = (Some \<lparr>matches = Some [without_content ''v1'']\<rparr>, ?w1)"
    by code_simp
  have r: "retrieve_documents \<lparr>matches = Some [without_content ''v1'']\<rparr> 3 ?w1 = ([], ?w2)"
    by code_simp
  have sa: "search_index_app (answering []) ''q'' 6 store_ingested = (Inr \<lparr>matches = Some []\<rparr>, ?w1)"
    by code_simp
  have ra: "retrieve_documents_app \<lparr>matches = Some []\<rparr> 3 = Inr []"
    by code_simp
  have e: "emit (St No_relevant_documents) ?w2
      = store_ingested\<lparr>trace := [Embeddings_create ''q'', Index_query 6,
                     St (Document_not_found ''v1''), St No_relevant_documents]\<rparr>"
    by (simp add: emit_def)
  note t1 = empty_extraction_skips_completion [of "answering [without_content ''v1'']" "''q''"
      store_ingested "\<lparr>matches = Some [without_content ''v1'']\<rparr>" ?w1 ?w2, THEN conjunct1,
      rule_format, OF conjI [OF s r]]
  note t2 = empty_extraction_skips_completion [of "answering []" "''q''"
      store_ingested _ ?w1 _ "\<lparr>matches = Some []\<rparr>", THEN conjunct2,
      rule_format, OF conjI [OF sa ra]]
  have c1: "retrieve_documents \<lparr>matches = Some [without_content ''v1'']\<rparr> 3
       (snd (search_index (answering [without_content ''v1'']) ''q'' 6 store_ingested)) = ([], ?w2)"
    using s r by simp
  have c2: "query (answering [without_content ''v1'']) ''q'' store_ingested
     = ((None, []), store_ingested\<lparr>trace := [Embeddings_create ''q'', Index_query 6,
                     St (Document_not_found ''v1''), St No_relevant_documents]\<rparr>)"
    using t1 [THEN conjunct1] e by simp
  note c4 = t2 [THEN conjunct1]
  note c5 = t1 [THEN conjunct2]
  show ?thesis
    by (intro conjI) (fact c1 c2 ra c4 c5)+
qed

section \<open>The index the question-answering flow selects\<close>

lemma hd_py_sorted_reverse_Max:
  assumes "ks \<noteq> []"
  shows "hd (py_sorted_reverse (\<lambda>k. k) ks) = Max (set ks)"
  using hd_py_sorted_reverse [OF assms, of "\<lambda>k. k"]
  by (intro Max_eqI [symmetric]) auto

lemma latest_index_try_ledger:
  assumes "download_fault f log_key = None" "lookup_object log_key (bucket w) = Some obj"
    "Body obj = Ledger_json d" "d \<noteq> []"
  shows "\<exists>index_name. map_of d (Max (set (map fst d))) = Some index_name
           \<and> latest_index_try f w = (Inr index_name, emit (S3_download_file log_key) w)"
proof -
  let ?ks = "map fst d"
  have ne: "?ks \<noteq> []"
    using assms(4) by simp
  then have s: "py_sorted_reverse (\<lambda>k. k) ?ks \<noteq> []"
    by (simp add: py_sorted_reverse_Nil)
  then obtain latest rest where c: "py_sorted_reverse (\<lambda>k. k) ?ks = latest # rest"
    by (cases "py_sorted_reverse (\<lambda>k. k) ?ks") auto
  then have l: "latest = Max (set ?ks)"
    using hd_py_sorted_reverse_Max [OF ne] by simp
  have "latest \<in> set ?ks"
    using hd_py_sorted_reverse(1) [OF ne, of "\<lambda>k. k"] c by simp
  then obtain index_name where m: "map_of d latest = Some index_name"
    by (metis map_of_eq_None_iff not_None_eq set_map)
  have "latest_index_try f w = (Inr index_name, emit (S3_download_file log_key) w)"
    using assms c m by (simp add: latest_index_try_def s3_download_file_def json_load_def Let_def)
  then show ?thesis
    using m l by blast
qed

lemma latest_index_try_unreadable:
  assumes "download_fault f log_key \<noteq> None \<or> lookup_object log_key (bucket w) = None
     \<or> (\<exists>obj. lookup_object log_key (bucket w) = Some obj
           \<and> (Body obj = Opaque \<or> Body obj = Ledger_json []))"
  shows "\<exists>e. latest_index_try f w = (Inl e, emit (S3_download_file log_key) w)"
  using assms
  by (auto simp: latest_index_try_def s3_download_file_def json_load_def Let_def
      split: option.splits)

lemma lookup_object_retimed:
  "lookup_object k (map (\<lambda>obj. obj\<lparr>LastModified := t obj\<rparr>) objs)
     = map_option (\<lambda>obj. obj\<lparr>LastModified := t obj\<rparr>) (lookup_object k objs)"
  by (induction objs) (simp_all add: lookup_object_def)

lemma latest_index_try_retimed:
  "fst (latest_index_try f (w\<lparr>bucket := map (\<lambda>obj. obj\<lparr>LastModified := t obj\<rparr>) (bucket w)\<rparr>))
     = fst (latest_index_try f w)"
  by (cases "lookup_object log_key (bucket w)")
     (simp_all add: latest_index_try_def s3_download_file_def Let_def lookup_object_retimed
       split: option.splits sum.splits list.splits)

text \<open>
  C9. The index the question-answering flow uses is read from the ledger alone: when
  the ledger object can be fetched and holds a non-empty ledger, it is the index name
  recorded under the greatest key in the lexicographic order, whatever the modification
  times of the objects in the store are; in the store below that is not the index of
  the snapshot that was modified last. When the ledger cannot be fetched or read, or is
  empty, no index is selected and both scripts stop after reporting the error, without a
  call to the vector-index, embedding or completion service.
\<close>

theorem qna_index_is_under_greatest_ledger_key:
  "(download_fault f log_key = None \<and> lookup_object log_key (bucket w) = Some obj
      \<and> Body obj = Ledger_json d \<and> d \<noteq> []
     \<longrightarrow> fst (get_latest_index_from_s3_log f w) = map_of d (Max (set (map fst d)))
         \<and> fst (get_latest_index_from_s3_log f w) \<noteq> None)
   \<and> (\<forall>t. fst (get_latest_index_from_s3_log f
                (w\<lparr>bucket := map (\<lambda>obj. obj\<lparr>LastModified := t obj\<rparr>) (bucket w)\<rparr>))
            = fst (get_latest_index_from_s3_log f w))
   \<and> (latest_json_file (listed prefix_dir (bucket store_two_ingested)) = Some last_modified
        \<and> map_of two_ingested_ledger (basename (Key last_modified)) = Some ''index-a''
        \<and> fst (get_latest_index_from_s3_log no_faults store_two_ingested) = Some ''index-b'')
   \<and> (download_fault f log_key \<noteq> None \<or> lookup_object log_key (bucket w) = None
        \<or> (\<exists>obj. lookup_object log_key (bucket w) = Some obj
              \<and> (Body obj = Opaque \<or> Body obj = Ledger_json []))
     \<longrightarrow> fst (get_latest_index_from_s3_log f w) = None
         \<and> fst (gcp_gpt_assistant_script f sv inp w) = Stopped
         \<and> fst (app_qna_page f sv inp w) = Stopped
         \<and> filter is_service_call (issued w (snd (gcp_gpt_assistant_script f sv inp w))) = []
         \<and> filter is_service_call (issued w (snd (app_qna_page f sv inp w))) = [])"
proof (intro conjI impI allI)
  assume a: "download_fault f log_key = None \<and> lookup_object log_key (bucket w) = Some obj
      \<and> Body obj = Ledger_json d \<and> d \<noteq> []"
  then obtain index_name where i: "map_of d (Max (set (map fst d))) = Some index_name"
      "latest_index_try f w = (Inr index_name, emit (S3_download_file log_key) w)"
    using latest_index_try_ledger [of f w obj d] by blast
  then show "fst (get_latest_index_from_s3_log f w) = map_of d (Max (set (map fst d)))"
    and "fst (get_latest_index_from_s3_log f w) \<noteq> None"
    by (simp_all add: get_latest_index_from_s3_log_def)
next
  fix t
  show "fst (get_latest_index_from_s3_log f
                (w\<lparr>bucket := map (\<lambda>obj. obj\<lparr>LastModified := t obj\<rparr>) (bucket w)\<rparr>))
            = fst (get_latest_index_from_s3_log f w)"
    using latest_index_try_retimed [where f = f and w = w and t = t]
    by (auto simp: get_latest_index_from_s3_log_def split: prod.splits sum.splits)
next
  show "latest_json_file (listed prefix_dir (bucket store_two_ingested)) = Some last_modified"
    by code_simp
  show "map_of two_ingested_ledger (basename (Key last_modified)) = Some ''index-a''"
    by code_simp
  show "fst (get_latest_index_from_s3_log no_faults store_two_ingested) = Some ''index-b''"
    by code_simp
next
  assume "download_fault f log_key \<noteq> None \<or> lookup_object log_key (bucket w) = None
        \<or> (\<exists>obj. lookup_object log_key (bucket w) = Some obj
              \<and> (Body obj = Opaque \<or> Body obj = Ledger_json []))"
  then obtain e where "latest_index_try f w = (Inl e, emit (S3_download_file log_key) w)"
    using latest_index_try_unreadable [of f w] by blast
  then have g: "get_latest_index_from_s3_log f w
      = (None, emit (St (Error_loading_latest_index e)) (emit (S3_download_file log_key) w))"
    by (simp add: get_latest_index_from_s3_log_def)
  have i: "issued w (emit (St (Error_loading_latest_index e)) (emit (S3_download_file log_key) w))
      = [S3_download_file log_key, St (Error_loading_latest_index e)]"
    by (simp add: issued_def)
  show "fst (get_latest_index_from_s3_log f w) = None"
    using g by simp
  show "fst (gcp_gpt_assistant_script f sv inp w) = Stopped"
    using g by (simp add: gcp_gpt_assistant_script_def)
  show "fst (app_qna_page f sv inp w) = Stopped"
    using g by (simp add: app_qna_page_def)
  show "filter is_service_call (issued w (snd (gcp_gpt_assistant_script f sv inp w))) = []"
    using g i by (simp add: gcp_gpt_assistant_script_def)
  show "filter is_service_call (issued w (snd (app_qna_page f sv inp w))) = []"
    using g i by (simp add: app_qna_page_def)
qed

text \<open>
  The theorem at the store with two ingested snapshots, and at a store without a ledger.
\<close>

theorem qna_index_is_under_greatest_ledger_key_witness:
  "Max (set (map fst two_ingested_ledger)) = ''inventory_b.json''
   \<and> fst (get_latest_index_from_s3_log no_faults store_two_ingested) = Some ''index-b''
   \<and> gcp_gpt_assistant_script no_faults (answering []) ask
        \<lparr>bucket = [older_snapshot], indexes = [], trace = []\<rparr>
       = (Stopped, \<lparr>bucket = [older_snapshot], indexes = [],
                    trace = [S3_download_file ''copilot/ingestion_log.json'',
                             St (Error_loading_latest_index (ClientError ''404''))]\<rparr>)
   \<and> fst (app_qna_page no_faults (answering []) ask
        \<lparr>bucket = [older_snapshot], indexes = [], trace = []\<rparr>) = Stopped"
proof -
  let ?w = "\<lparr>bucket = [older_snapshot], indexes = [], trace = []\<rparr>"
  have a: "download_fault no_faults log_key = None
      \<and> lookup_object log_key (bucket store_two_ingested) = Some (ledger_object 6 two_ingested_ledger)
      \<and> Body (ledger_object 6 two_ingested_ledger) = Ledger_json two_ingested_ledger
      \<and> two_ingested_ledger \<noteq> []"
    by (simp add: no_faults_def store_two_ingested_def lookup_object_def first_modified_def
        last_modified_def ledger_object_def log_key_def two_ingested_ledger_def)
  have m: "Max (set (map fst two_ingested_ledger)) = ''inventory_b.json''"
    unfolding two_ingested_ledger_def by code_simp
  have v: "map_of two_ingested_ledger ''inventory_b.json'' = Some ''index-b''"
    by (simp add: two_ingested_ledger_def)
  have b: "download_fault no_faults log_key \<noteq> None \<or> lookup_object log_key (bucket ?w) = None
        \<or> (\<exists>obj. lookup_object log_key (bucket ?w) = Some obj
              \<and> (Body obj = Opaque \<or> Body obj = Ledger_json []))"
    by (simp add: lookup_object_def older_snapshot_def log_key_def)
  have run: "gcp_gpt_assistant_script no_faults (answering []) ask ?w
       = (Stopped, \<lparr>bucket = [older_snapshot], indexes = [],
                    trace = [S3_download_file ''copilot/ingestion_log.json'',
                             St (Error_loading_latest_index (ClientError ''404''))]\<rparr>)"
    by code_simp
  note t1 = qna_index_is_under_greatest_ledger_key [of no_faults store_two_ingested
      "ledger_object 6 two_ingested_ledger" two_ingested_ledger, THEN conjunct1, rule_format, OF a]
  note t2 = qna_index_is_under_greatest_ledger_key [of no_faults ?w _ _ "answering []" ask,
      THEN conjunct2, THEN conjunct2, THEN conjunct2, rule_format, OF b]
  have c2: "fst (get_latest_index_from_s3_log no_faults store_two_ingested) = Some ''index-b''"
    using t1 m v by simp
  note c4 = t2 [THEN conjunct2, THEN conjunct2, THEN conjunct1]
  show ?thesis
    by (intro conjI) (fact m c2 run c4)+
qed

section \<open>Document extraction in the two engines\<close>

lemma content_option_Inr: "content_of m = Inr c \<Longrightarrow> content_option m = Some c"
  by (simp add: content_option_def)

lemma content_option_Inl: "content_of m = Inl e \<Longrightarrow> content_option m = None"
  by (simp add: content_option_def)

text \<open>
  What \<open>retrieve_documents\<close> of \<open>GCP_GPT_Assistant.py\<close> returns: the \<open>content\<close> fields of the
  first \<open>max_docs\<close> matches, in the order of the matches, those without the field left
  out and reported by their id.
\<close>

lemma retrieve_loop_result:
  "retrieve_loop ms documents w =
     (documents @ List.map_filter content_option ms,
      w\<lparr>trace := trace w @ map (\<lambda>m. St (Document_not_found (match_id m)))
                            (filter (\<lambda>m. content_option m = None) ms)\<rparr>)"
proof (induction ms arbitrary: documents w)
  case Nil
  then show ?case
    by (simp add: List.map_filter_simps)
next
  case (Cons m ms)
  then show ?case
    by (cases "content_of m")
       (simp_all add: content_option_Inr content_option_Inl List.map_filter_simps emit_def)
qed

lemma retrieve_documents_result:
  assumes "matches query_result = Some ms"
  shows "fst (retrieve_documents query_result max_docs w)
           = List.map_filter content_option (take max_docs ms)"
    and "length (fst (retrieve_documents query_result max_docs w)) \<le> max_docs"
    and "issued w (snd (retrieve_documents query_result max_docs w))
           = map (\<lambda>m. St (Document_not_found (match_id m)))
               (filter (\<lambda>m. content_option m = None) (take max_docs ms))"
proof -
  show r: "fst (retrieve_documents query_result max_docs w)
           = List.map_filter content_option (take max_docs ms)"
    using assms by (simp add: retrieve_documents_def retrieve_loop_result)
  have "length (List.map_filter content_option (take max_docs ms)) \<le> length (take max_docs ms)"
    unfolding List.map_filter_def length_map by (rule length_filter_le)
  also have "\<dots> \<le> max_docs"
    by simp
  finally show "length (fst (retrieve_documents query_result max_docs w)) \<le> max_docs"
    using r by simp
  show "issued w (snd (retrieve_documents query_result max_docs w))
           = map (\<lambda>m. St (Document_not_found (match_id m)))
               (filter (\<lambda>m. content_option m = None) (take max_docs ms))"
    using assms by (simp add: retrieve_documents_def retrieve_loop_result issued_def)
qed

text \<open>
  What \<open>retrieve_documents\<close> of \<open>app.py\<close> returns: the same list when every one of the
  first \<open>max_docs\<close> matches has the field, and an exception otherwise.
\<close>

lemma contents_of_all_complete:
  "\<forall>m\<in>set ms. content_option m \<noteq> None
     \<Longrightarrow> contents_of_all ms = Inr (List.map_filter content_option ms)"
proof (induction ms)
  case Nil
  then show ?case
    by (simp add: List.map_filter_simps)
next
  case (Cons m ms)
  then show ?case
    by (cases "content_of m")
       (simp_all add: content_option_Inr content_option_Inl List.map_filter_simps)
qed

lemma contents_of_all_missing:
  "\<exists>m\<in>set ms. content_option m = None \<Longrightarrow> \<exists>e. contents_of_all ms = Inl e"
proof (induction ms)
  case Nil
  then show ?case
    by simp
next
  case (Cons m ms)
  show ?case
  proof (cases "content_of m")
    case (Inl e)
    then show ?thesis
      by simp
  next
    case (Inr c)
    then have "\<exists>m\<in>set ms. content_option m = None"
      using Cons.prems by (auto simp: content_option_Inr)
    then obtain e where "contents_of_all ms = Inl e"
      using Cons.IH by blast
    then show ?thesis
      using Inr by simp
  qed
qed

text \<open>
  C7, at a search result whose second match has no \<open>content\<close> field. In \<open>app.py\<close> the
  extraction raises \<open>KeyError\<close> and the exception ends the page; in
  \<open>GCP_GPT_Assistant.py\<close> the same result gives the two documents in order and a report
  naming the match that was skipped.
\<close>

theorem retrieve_documents_app_raises_on_missing_content:
  "retrieve_documents_app \<lparr>matches = Some three_matches\<rparr> 3 = Inl (KeyError ''content'')
   \<and> app_qna_page no_faults (answering three_matches) ask store_ingested
       = (Raised (KeyError ''content''),
          store_ingested\<lparr>trace := [S3_download_file ''copilot/ingestion_log.json'', Pc_list_indexes,
             Pc_Index ''inventory-1'', Embeddings_create ''How many buckets exist?'',
             Index_query 6]\<rparr>)
   \<and> retrieve_documents \<lparr>matches = Some three_matches\<rparr> 3 store_ingested
       = ([''bucket a'', ''bucket c''],
          store_ingested\<lparr>trace := [St (Document_not_found ''v2'')]\<rparr>)"
  by code_simp

section \<open>Attempts and create calls of the index bootstrap\<close>

lemma create_if_absent_present:
  assumes "list_indexes_fault sv attempt = None" "index_name \<in> set (indexes w)"
  shows "create_if_absent sv attempt index_name w = (None, emit Pc_list_indexes w)"
  using assms by (simp add: create_if_absent_def pc_list_indexes_def Let_def)

lemma create_if_absent_absent:
  assumes "list_indexes_fault sv attempt = None" "index_name \<notin> set (indexes w)"
  shows "create_if_absent sv attempt index_name w
           = (create_index_fault sv attempt,
              (if create_index_fault sv attempt = None
               then (emit (Pc_create_index index_name) (emit Pc_list_indexes w))
                      \<lparr>indexes := indexes w @ [index_name]\<rparr>
               else emit (Pc_create_index index_name) (emit Pc_list_indexes w)))"
  using assms
  by (auto simp: create_if_absent_def pc_list_indexes_def pc_create_index_def Let_def
      split: option.splits)

text \<open>
  A name in the listing: the first attempt of \<open>create_index_with_retry\<close> returns \<open>True\<close>
  without a create call. A name not in the listing whose creation succeeds: one create
  call, and \<open>True\<close>.
\<close>

lemma create_index_with_retry_present:
  assumes "0 < retries" "list_indexes_fault sv 0 = None" "index_name \<in> set (indexes w)"
  shows "create_index_with_retry sv index_name retries delay w
           = (Some True, emit Pc_list_indexes w)"
  using assms by (simp add: create_index_with_retry_def create_if_absent_present)

lemma create_index_with_retry_created:
  assumes "0 < retries" "list_indexes_fault sv 0 = None" "index_name \<notin> set (indexes w)"
    "create_index_fault sv 0 = None"
  shows "create_index_with_retry sv index_name retries delay w
           = (Some True, (emit (Pc_create_index index_name) (emit Pc_list_indexes w))
                           \<lparr>indexes := indexes w @ [index_name]\<rparr>)"
  using assms by (simp add: create_index_with_retry_def create_if_absent_absent)

text \<open>At most one create call per attempt, so at most \<open>retries\<close> in all.\<close>

lemma create_if_absent_calls:
  "\<exists>es. trace (snd (create_if_absent sv attempt index_name w)) = trace w @ es
     \<and> length (filter is_create_call es) \<le> 1"
  by (auto simp: create_if_absent_def pc_list_indexes_def pc_create_index_def Let_def
      split: option.splits)

lemma create_index_with_retry_from_calls:
  "\<exists>es. trace (snd (create_index_with_retry_from sv index_name retries delay attempt w))
           = trace w @ es
     \<and> int (length (filter is_create_call es)) \<le> max 0 (retries - int attempt)"
proof (induction sv index_name retries delay attempt w rule: create_index_with_retry_from.induct)
  case (1 sv index_name retries delay attempt w)
  show ?case
  proof (cases "int attempt < retries")
    case False
    then show ?thesis
      by (simp add: create_index_with_retry_from.simps [of sv index_name retries delay attempt w])
  next
    case True
    obtain r w1 where c: "create_if_absent sv attempt index_name w = (r, w1)"
      by fastforce
    obtain es1 where e1: "trace w1 = trace w @ es1" "length (filter is_create_call es1) \<le> 1"
      using create_if_absent_calls [of sv attempt index_name w] c by auto
    show ?thesis
    proof (cases r)
      case None
      then show ?thesis
        using True c e1
        by (simp add: create_index_with_retry_from.simps [of sv index_name retries delay attempt w])
    next
      case (Some e)
      show ?thesis
      proof (cases "int attempt < retries - 1")
        case False
        then show ?thesis
          using True c e1 Some
          by (simp add: create_index_with_retry_from.simps [of sv index_name retries delay attempt w])
      next
        case again: True
        let ?w2 = "emit (Sleep delay) w1"
        obtain es2 where e2:
            "trace (snd (create_index_with_retry_from sv index_name retries delay (Suc attempt) ?w2))
               = trace ?w2 @ es2"
            "int (length (filter is_create_call es2)) \<le> max 0 (retries - int (Suc attempt))"
          using "1.IH" [OF True c [symmetric] Some again] by blast
        have "trace (snd (create_index_with_retry_from sv index_name retries delay attempt w))
            = trace w @ (es1 @ Sleep delay # es2)"
          using True c Some again e1 e2
          by (simp add: create_index_with_retry_from.simps [of sv index_name retries delay attempt w])
        moreover have "int (length (filter is_create_call (es1 @ Sleep delay # es2)))
            \<le> max 0 (retries - int attempt)"
          using e1(2) e2(2) again by simp
        ultimately show ?thesis
          by blast
      qed
    qed
  qed
qed

text \<open>When every attempt fails, the result is \<open>False\<close> (given there is an attempt at all).\<close>

lemma create_index_with_retry_from_exhausted:
  assumes "\<And>attempt w. fst (create_if_absent sv attempt index_name w) \<noteq> None"
  shows "fst (create_index_with_retry_from sv index_name retries delay attempt w)
           = (if int attempt < retries then Some False else None)"
  using assms
proof (induction sv index_name retries delay attempt w rule: create_index_with_retry_from.induct)
  case (1 sv index_name retries delay attempt w)
  show ?case
  proof (cases "int attempt < retries")
    case False
    then show ?thesis
      by (simp add: create_index_with_retry_from.simps [of sv index_name retries delay attempt w])
  next
    case True
    obtain r w1 where c: "create_if_absent sv attempt index_name w = (r, w1)"
      by fastforce
    then obtain e where e: "r = Some e"
      using "1.prems" [of attempt w] by (cases r) auto
    show ?thesis
    proof (cases "int attempt < retries - 1")
      case False
      then show ?thesis
        using True c e
        by (simp add: create_index_with_retry_from.simps [of sv index_name retries delay attempt w])
    next
      case again: True
      have "fst (create_index_with_retry_from sv index_name retries delay (Suc attempt)
                   (emit (Sleep delay) w1)) = Some False"
        using "1.IH" [OF True c [symmetric] e again] "1.prems" again by simp
      then show ?thesis
        using True c e again
        by (simp add: create_index_with_retry_from.simps [of sv index_name retries delay attempt w])
    qed
  qed
qed

text \<open>
  C8, at a store whose ledger names an index that is not in the listing and cannot be
  created. \<open>create_index_with_retry\<close> makes its three attempts, reports the failure and
  returns \<open>False\<close>; \<open>GCP_GPT_Assistant.py\<close> drops that result, asks for a handle on the index
  and queries it. Where the service gives no handle, what ends the script is the
  exception of that call, which nothing catches.
\<close>

theorem failed_bootstrap_does_not_stop_the_script:
  "create_index_with_retry (creation_refused []) ''inventory-1'' 3 5 store_index_absent
     = (Some False,
        store_index_absent\<lparr>trace :=
          [Pc_list_indexes, Pc_create_index ''inventory-1'', Sleep 5,
           Pc_list_indexes, Pc_create_index ''inventory-1'', Sleep 5,
           Pc_list_indexes, Pc_create_index ''inventory-1'',
           St (Failed_to_create_index 3 (ServiceError ''quota exceeded''))]\<rparr>)
   \<and> gcp_gpt_assistant_script no_faults (creation_refused []) ask store_index_absent
     = (Finished,
        store_index_absent\<lparr>trace :=
          [S3_download_file ''copilot/ingestion_log.json'',
           Pc_list_indexes, Pc_create_index ''inventory-1'', Sleep 5,
           Pc_list_indexes, Pc_create_index ''inventory-1'', Sleep 5,
           Pc_list_indexes, Pc_create_index ''inventory-1'',
           St (Failed_to_create_index 3 (ServiceError ''quota exceeded'')),
           Pc_Index ''inventory-1'', Embeddings_create ''How many buckets exist?'',
           Index_query 6, St No_relevant_documents, St No_response_generated]\<rparr>)
   \<and> ''inventory-1'' \<notin> set (indexes
        (snd (gcp_gpt_assistant_script no_faults (creation_refused []) ask store_index_absent)))
   \<and> gcp_gpt_assistant_script no_faults (creation_refused_no_handle []) ask store_index_absent
     = (Raised (ServiceError ''index not found''),
        store_index_absent\<lparr>trace :=
          [S3_download_file ''copilot/ingestion_log.json'',
           Pc_list_indexes, Pc_create_index ''inventory-1'', Sleep 5,
           Pc_list_indexes, Pc_create_index ''inventory-1'', Sleep 5,
           Pc_list_indexes, Pc_create_index ''inventory-1'',
           St (Failed_to_create_index 3 (ServiceError ''quota exceeded'')),
           Pc_Index ''inventory-1'']\<rparr>)"
  by code_simp

end
